theory Spec2Isabelle
  imports Complex_Main
begin

section \<open>Python values used by the analyzers\<close>

text \<open>
  The exceptions the three analyzer modules raise or let escape.  \<open>NameError\<close> is what
  Python raises when a module-level name such as \<open>librosa\<close> was never bound because the
  guarded import at the top of the module failed.
\<close>

datatype error =
    FileNotFoundError
  | ValueError
  | RuntimeError
  | ImportError
  | AttributeError
  | NameError

text \<open>
  A measurement is a Python float.  It is modelled as an exact real number or NaN (what
  \<open>np.mean\<close> and \<open>np.std\<close> give on an empty array); rounding and infinities are not
  modelled.  Every ordering comparison with NaN is false, as in IEEE arithmetic.
\<close>

datatype pyfloat = Fl real | NaN

fun flt :: "pyfloat \<Rightarrow> pyfloat \<Rightarrow> bool" where
  "flt (Fl a) (Fl b) = (a < b)"
| "flt _ _ = False"

fun fgt :: "pyfloat \<Rightarrow> pyfloat \<Rightarrow> bool" where
  "fgt (Fl a) (Fl b) = (a > b)"
| "fgt _ _ = False"

fun fadd :: "pyfloat \<Rightarrow> pyfloat \<Rightarrow> pyfloat" where
  "fadd (Fl a) (Fl b) = Fl (a + b)"
| "fadd _ _ = NaN"

fun fmul :: "pyfloat \<Rightarrow> pyfloat \<Rightarrow> pyfloat" where
  "fmul (Fl a) (Fl b) = Fl (a * b)"
| "fmul _ _ = NaN"

text \<open>
  Division of numpy scalars does not raise: a zero divisor gives an infinity or NaN, and
  every comparison \<open>x / 0 < c\<close> the source makes has a non-negative \<open>x\<close>, where both
  compare false; the model returns NaN there.
\<close>

fun fdiv :: "pyfloat \<Rightarrow> pyfloat \<Rightarrow> pyfloat" where
  "fdiv (Fl a) (Fl b) = (if b = 0 then NaN else Fl (a / b))"
| "fdiv _ _ = NaN"

fun fabs :: "pyfloat \<Rightarrow> pyfloat" where
  "fabs (Fl a) = Fl \<bar>a\<bar>"
| "fabs NaN = NaN"

fun is_nan :: "pyfloat \<Rightarrow> bool" where
  "is_nan NaN = True"
| "is_nan (Fl _) = False"

fun fval :: "pyfloat \<Rightarrow> real" where
  "fval (Fl a) = a"
| "fval NaN = 0"

text \<open>\<open>np.mean\<close>, \<open>np.std\<close> (population standard deviation) and \<open>np.max\<close> of a
  one-dimensional array: NaN when the array is empty or holds a NaN.  (\<open>np.max\<close> raises on
  an empty array; its only call site has a non-empty argument.)\<close>

definition np_mean :: "pyfloat list \<Rightarrow> pyfloat" where
  "np_mean xs =
     (if xs = [] \<or> (\<exists>x \<in> set xs. is_nan x) then NaN
      else Fl (sum_list (map fval xs) / real (length xs)))"

definition np_std :: "pyfloat list \<Rightarrow> pyfloat" where
  "np_std xs =
     (case np_mean xs of
        NaN \<Rightarrow> NaN
      | Fl m \<Rightarrow> Fl (sqrt (sum_list (map (\<lambda>x. (fval x - m)\<^sup>2) xs) / real (length xs))))"

definition np_max :: "pyfloat list \<Rightarrow> pyfloat" where
  "np_max xs =
     (if xs = [] \<or> (\<exists>x \<in> set xs. is_nan x) then NaN
      else Fl (Max (set (map fval xs))))"

text \<open>The values stored in an anomaly's evidence dictionary.\<close>

datatype pyval =
    PBool bool
  | PFloat pyfloat
  | PInt int
  | PStr string
  | PList "pyval list"

subsection \<open>Dictionaries\<close>

text \<open>
  A Python \<open>dict\<close> keeps its keys unique and in insertion order; it is an association
  list here.  \<open>dict_set\<close> is \<open>d[k] = v\<close>: an existing key keeps its position and gets
  the new value, a new key is appended.  \<open>dict_update\<close> is \<open>d.update(e)\<close>.
\<close>

type_synonym ('k, 'v) pydict = "('k \<times> 'v) list"

fun dict_set :: "('k, 'v) pydict \<Rightarrow> 'k \<Rightarrow> 'v \<Rightarrow> ('k, 'v) pydict" where
  "dict_set [] k v = [(k, v)]"
| "dict_set ((k', v') # d) k v =
     (if k' = k then (k, v) # d else (k', v') # dict_set d k v)"

definition dict_update :: "('k, 'v) pydict \<Rightarrow> ('k, 'v) pydict \<Rightarrow> ('k, 'v) pydict" where
  "dict_update d e = fold (\<lambda>(k, v) acc. dict_set acc k v) e d"

definition dict_keys :: "('k, 'v) pydict \<Rightarrow> 'k list" where
  "dict_keys d = map fst d"

definition dict_get :: "('k, 'v) pydict \<Rightarrow> 'k \<Rightarrow> 'v \<Rightarrow> 'v" where
  "dict_get d k dflt = (case map_of d k of None \<Rightarrow> dflt | Some v \<Rightarrow> v)"

type_synonym anomaly = "(string, pyval) pydict"
type_synonym anomaly_set = "(string, anomaly) pydict"

section \<open>The analysis result\<close>

record analysis_result =
  file_path :: string
  file_type :: string
  is_likely_ai_generated :: bool
  confidence_score :: real
  anomalies_detected :: anomaly_set
  analysis_details :: "(string, anomaly_set) pydict"

section \<open>Python floats in the score and in the frame sampler\<close>

text \<open>
  The confidence score and the sample positions of \<open>np.linspace\<close> are computed in
  IEEE 754 binary64 arithmetic, where every operation returns the representable number
  nearest to the exact result, ties going to the even significand.  A double is the real
  number it denotes.  \<open>binade x\<close> is the exponent \<open>e\<close> with \<open>2^e \<le> x < 2^(e+1)\<close>
  of a positive \<open>x\<close>, found by repeated halving or doubling; the doubles of that binade
  are the multiples of \<open>2^(e-52)\<close>, and \<open>dbl x\<close> is the one nearest to \<open>x\<close>.
  The exponent is not bounded: the values that occur here are far from overflow and from
  the subnormal range.
\<close>

fun ilog2_up :: "nat \<Rightarrow> real \<Rightarrow> int" where
  "ilog2_up 0 x = 0"
| "ilog2_up (Suc n) x = (if x < 2 then 0 else 1 + ilog2_up n (x / 2))"

fun ilog2_down :: "nat \<Rightarrow> real \<Rightarrow> int" where
  "ilog2_down 0 x = 0"
| "ilog2_down (Suc n) x = (if 1 \<le> x then 0 else ilog2_down n (2 * x) - 1)"

definition binade :: "real \<Rightarrow> int" where
  "binade x = (if 1 \<le> x then ilog2_up (nat \<lfloor>x\<rfloor>) x else ilog2_down (nat \<lceil>1 / x\<rceil>) x)"

definition round_half_even :: "real \<Rightarrow> int" where
  "round_half_even y =
     (let m = \<lfloor>y\<rfloor>; f = y - of_int m
      in if f < 1 / 2 then m else if 1 / 2 < f then m + 1 else if even m then m else m + 1)"

definition dbl :: "real \<Rightarrow> real" where
  "dbl x =
     (if x = 0 then 0
      else let q = 2 powi (binade \<bar>x\<bar> - 52) in of_int (round_half_even (x / q)) * q)"

text \<open>Addition, multiplication and division of doubles.  (Division by zero does not
  occur: every division of the model has a positive divisor.)\<close>

definition dbl_add :: "real \<Rightarrow> real \<Rightarrow> real" where
  "dbl_add a b = dbl (a + b)"

definition dbl_mul :: "real \<Rightarrow> real \<Rightarrow> real" where
  "dbl_mul a b = dbl (a * b)"

definition dbl_div :: "real \<Rightarrow> real \<Rightarrow> real" where
  "dbl_div a b = dbl (a / b)"

section \<open>Confidence aggregation\<close>

text \<open>The weight tables of \<open>AudioAnalyzer._calculate_confidence\<close> and
  \<open>VideoAnalyzer._calculate_confidence\<close> as the source writes them, and as the doubles
  that the decimal literals denote.\<close>

definition audio_weight_literals :: "(string, real) pydict" where
  "audio_weight_literals =
     [(''spectral_centroid_anomaly'', 0.25),
      (''spectral_rolloff_anomaly'', 0.15),
      (''zero_crossing_anomaly'', 0.20),
      (''energy_anomaly'', 0.20),
      (''onset_pattern_anomaly'', 0.10),
      (''kurtosis_anomaly'', 0.05),
      (''skewness_anomaly'', 0.05)]"

definition video_weight_literals :: "(string, real) pydict" where
  "video_weight_literals =
     [(''sharpness_anomaly'', 0.15),
      (''low_sharpness_anomaly'', 0.10),
      (''temporal_consistency_anomaly'', 0.25),
      (''temporal_jump_anomaly'', 0.15),
      (''color_distribution_anomaly'', 0.15),
      (''color_balance_anomaly'', 0.10),
      (''edge_consistency_anomaly'', 0.05),
      (''low_edge_density_anomaly'', 0.05)]"

definition audio_weights :: "(string, real) pydict" where
  "audio_weights = map (\<lambda>(name, w). (name, dbl w)) audio_weight_literals"

definition video_weights :: "(string, real) pydict" where
  "video_weights = map (\<lambda>(name, w). (name, dbl w)) video_weight_literals"

text \<open>
  Both methods have the same body: 0.0 for an empty dictionary, otherwise the loop over
  \<open>anomalies.keys()\<close>, that is, in insertion order, adding
  \<open>weights.get(anomaly_key, 0.1)\<close> to \<open>total_weight\<close> with a float addition, and
  \<open>min(total_weight, 1.0)\<close>.
\<close>

definition audio_calculate_confidence :: "(string, 'v) pydict \<Rightarrow> real" where
  "audio_calculate_confidence anomalies =
     (if anomalies = [] then 0.0
      else let total_weight =
                 fold (\<lambda>anomaly_key total.
                         dbl_add total (dict_get audio_weights anomaly_key (dbl 0.1)))
                      (dict_keys anomalies) 0.0
           in min total_weight 1.0)"

definition video_calculate_confidence :: "(string, 'v) pydict \<Rightarrow> real" where
  "video_calculate_confidence anomalies =
     (if anomalies = [] then 0.0
      else let total_weight =
                 fold (\<lambda>anomaly_key total.
                         dbl_add total (dict_get video_weights anomaly_key (dbl 0.1)))
                      (dict_keys anomalies) 0.0
           in min total_weight 1.0)"

section \<open>The environment: file system and path handling\<close>

text \<open>
  \<open>pathlib\<close> belongs to Python, not to the repository: what the analyzers ask of a
  \<open>Path\<close> is a parameter of the model.  \<open>path_exists p\<close> is \<open>Path(p).exists()\<close>,
  \<open>path_suffix p\<close> is \<open>Path(p).suffix\<close> and \<open>path_str p\<close> is \<open>str(Path(p))\<close>.
\<close>

record pathlib =
  path_exists :: "string \<Rightarrow> bool"
  path_suffix :: "string \<Rightarrow> string"
  path_str :: "string \<Rightarrow> string"

text \<open>\<open>str.lower()\<close> on the ASCII letters; the strings of the model are byte strings.\<close>

definition lower_char :: "char \<Rightarrow> char" where
  "lower_char c =
     (case map_of (zip ''ABCDEFGHIJKLMNOPQRSTUVWXYZ'' ''abcdefghijklmnopqrstuvwxyz'') c of
        Some l \<Rightarrow> l
      | None \<Rightarrow> c)"

definition lower :: "string \<Rightarrow> string" where
  "lower s = map lower_char s"

text \<open>
  The effects that the error paths are about: a call of \<open>librosa.load\<close>, a call of
  \<open>cv2.VideoCapture\<close>, and the \<open>cap.release()\<close> of the \<open>finally\<close> clause.  Every
  analysis returns the list of the effects it performed, in order.
\<close>

datatype event = LoadAudio string | OpenVideo string | ReleaseVideo

section \<open>The audio module\<close>

type_synonym signal = "pyfloat list"

text \<open>
  The functions of \<open>librosa\<close> that the audio analyzer calls.  \<open>load\<close> is
  \<open>librosa.load(file_path, sr=None)\<close>, \<open>None\<close> when it raises; the feature functions
  return the single row that the source selects with \<open>[0]\<close>.
\<close>

record librosa_lib =
  load :: "string \<Rightarrow> (signal \<times> nat) option"
  spectral_centroid :: "signal \<Rightarrow> nat \<Rightarrow> pyfloat list"
  spectral_rolloff :: "signal \<Rightarrow> nat \<Rightarrow> pyfloat list"
  zero_crossing_rate :: "signal \<Rightarrow> pyfloat list"
  rms :: "signal \<Rightarrow> pyfloat list"
  onset_strength :: "signal \<Rightarrow> nat \<Rightarrow> pyfloat list"
  onset_detect :: "pyfloat list \<Rightarrow> nat \<Rightarrow> int list"

text \<open>
  The namespace of \<open>scipy.stats\<close>: attribute name to function.  \<open>scipy_stats\<close> is the
  namespace as the library has it, as far as the source reads it: it provides
  \<open>kurtosis\<close> and \<open>skew\<close>, whose numerics are parameters here, and nothing under the
  name \<open>skewness\<close>.
\<close>

type_synonym stats_module = "string \<Rightarrow> (signal \<Rightarrow> pyfloat) option"

definition scipy_stats :: "(signal \<Rightarrow> pyfloat) \<Rightarrow> (signal \<Rightarrow> pyfloat) \<Rightarrow> stats_module" where
  "scipy_stats kurtosis_fn skew_fn =
     (\<lambda>name. if name = ''kurtosis'' then Some kurtosis_fn
             else if name = ''skew'' then Some skew_fn
             else None)"

text \<open>
  The module globals after the guarded import
  \<^verbatim>\<open>try: import librosa; import scipy.stats; AUDIO_LIBS_AVAILABLE = True
  except ImportError: AUDIO_LIBS_AVAILABLE = False\<close>
  given which packages are installed: a name is bound only when its import succeeded.
\<close>

record audio_module =
  librosa :: "librosa_lib option"
  scipy_stats_global :: "stats_module option"
  AUDIO_LIBS_AVAILABLE :: bool

definition audio_module_import ::
  "librosa_lib option \<Rightarrow> stats_module option \<Rightarrow> audio_module" where
  "audio_module_import installed_librosa installed_scipy =
     (case installed_librosa of
        None \<Rightarrow> \<lparr>librosa = None, scipy_stats_global = None, AUDIO_LIBS_AVAILABLE = False\<rparr>
      | Some l \<Rightarrow>
          (case installed_scipy of
             None \<Rightarrow> \<lparr>librosa = Some l, scipy_stats_global = None,
                      AUDIO_LIBS_AVAILABLE = False\<rparr>
           | Some s \<Rightarrow> \<lparr>librosa = Some l, scipy_stats_global = Some s,
                        AUDIO_LIBS_AVAILABLE = True\<rparr>))"

definition audio_SUPPORTED_FORMATS :: "string set" where
  "audio_SUPPORTED_FORMATS =
     {''.mp3'', ''.wav'', ''.m4a'', ''.flac'', ''.ogg'', ''.aac'', ''.wma''}"

text \<open>\<open>BaseAnalyzer.__init__\<close> stores \<open>verbose\<close>; \<open>_log\<close> only prints and is left out.\<close>

record base_analyzer =
  verbose :: bool

definition AudioAnalyzer_init :: "audio_module \<Rightarrow> bool \<Rightarrow> error + base_analyzer" where
  "AudioAnalyzer_init g v =
     (if \<not> AUDIO_LIBS_AVAILABLE g then Inl ImportError else Inr \<lparr>verbose = v\<rparr>)"

definition AudioAnalyzer_supports_file :: "pathlib \<Rightarrow> string \<Rightarrow> bool" where
  "AudioAnalyzer_supports_file fs p \<longleftrightarrow> lower (path_suffix fs p) \<in> audio_SUPPORTED_FORMATS"

subsection \<open>Audio feature extractors\<close>

text \<open>
  Module globals do not change after the import, so a library that \<open>analyze\<close> found
  bound at its first use is handed to the helper methods as an argument.
\<close>

definition analyze_spectral_features :: "librosa_lib \<Rightarrow> signal \<Rightarrow> nat \<Rightarrow> anomaly_set" where
  "analyze_spectral_features lib y sr =
     (let anomalies = [];
          spectral_centroids = spectral_centroid lib y sr;
          centroid_mean = np_mean spectral_centroids;
          centroid_std = np_std spectral_centroids;
          anomalies =
            (if flt centroid_std (Fl 500) \<or> fgt centroid_std (Fl 5000)
             then dict_set anomalies ''spectral_centroid_anomaly''
                    [(''detected'', PBool True),
                     (''mean'', PFloat centroid_mean),
                     (''std'', PFloat centroid_std),
                     (''reason'', PStr ''Unusual spectral centroid distribution'')]
             else anomalies);
          rolloff = spectral_rolloff lib y sr;
          rolloff_mean = np_mean rolloff;
          anomalies =
            (if fgt rolloff_mean (Fl (real sr * 0.9))
             then dict_set anomalies ''spectral_rolloff_anomaly''
                    [(''detected'', PBool True),
                     (''mean'', PFloat rolloff_mean),
                     (''reason'', PStr ''Abnormally high spectral rolloff'')]
             else anomalies);
          zcr = zero_crossing_rate lib y;
          zcr_mean = np_mean zcr;
          anomalies =
            (if flt (np_std zcr) (Fl 0.01)
             then dict_set anomalies ''zero_crossing_anomaly''
                    [(''detected'', PBool True),
                     (''mean'', PFloat zcr_mean),
                     (''std'', PFloat (np_std zcr)),
                     (''reason'', PStr ''Unnaturally consistent zero crossing rate'')]
             else anomalies)
      in anomalies)"

text \<open>\<open>np.diff\<close> of a one-dimensional integer array.\<close>

fun np_diff :: "int list \<Rightarrow> int list" where
  "np_diff (a # b # xs) = (b - a) # np_diff (b # xs)"
| "np_diff _ = []"

definition analyze_temporal_features :: "librosa_lib \<Rightarrow> signal \<Rightarrow> nat \<Rightarrow> anomaly_set" where
  "analyze_temporal_features lib y sr =
     (let anomalies = [];
          rms_frames = rms lib y;
          rms_mean = np_mean rms_frames;
          rms_std = np_std rms_frames;
          anomalies =
            (if flt (fdiv rms_std (fadd rms_mean (Fl (1 / 1000000)))) (Fl 0.1)
             then dict_set anomalies ''energy_anomaly''
                    [(''detected'', PBool True),
                     (''mean'', PFloat rms_mean),
                     (''std'', PFloat rms_std),
                     (''reason'', PStr ''Unnaturally consistent energy levels'')]
             else anomalies);
          onset_env = onset_strength lib y sr;
          onsets = onset_detect lib onset_env sr;
          anomalies =
            (if length onsets > 1
             then (let onset_intervals = np_diff onsets;
                       interval_std = np_std (map (\<lambda>d. Fl (real_of_int d)) onset_intervals)
                   in if length onset_intervals > 2 \<and> flt interval_std (Fl 2)
                      then dict_set anomalies ''onset_pattern_anomaly''
                             [(''detected'', PBool True),
                              (''onset_count'', PInt (int (length onsets))),
                              (''interval_std'', PFloat interval_std),
                              (''reason'', PStr ''Suspiciously regular onset patterns'')]
                      else anomalies)
             else anomalies)
      in anomalies)"

text \<open>
  \<open>_analyze_statistical_features\<close> reads \<open>scipy.stats.kurtosis\<close> and, after the kurtosis
  test, \<open>scipy.stats.skewness\<close>.  Reading an attribute the module does not have raises
  \<open>AttributeError\<close>; an unbound global \<open>scipy\<close> raises \<open>NameError\<close>.
\<close>

definition analyze_statistical_features ::
  "stats_module option \<Rightarrow> signal \<Rightarrow> error + anomaly_set" where
  "analyze_statistical_features scipy_global y =
     (case scipy_global of
        None \<Rightarrow> Inl NameError
      | Some stats \<Rightarrow>
          (case stats ''kurtosis'' of
             None \<Rightarrow> Inl AttributeError
           | Some kurtosis_fn \<Rightarrow>
               (let anomalies = [];
                    kurtosis = kurtosis_fn y;
                    anomalies =
                      (if flt (fabs kurtosis) (Fl 1.0)
                       then dict_set anomalies ''kurtosis_anomaly''
                              [(''detected'', PBool True),
                               (''value'', PFloat kurtosis),
                               (''reason'', PStr ''Abnormal distribution kurtosis'')]
                       else anomalies)
                in (case stats ''skewness'' of
                      None \<Rightarrow> Inl AttributeError
                    | Some skewness_fn \<Rightarrow>
                        (let skewness = skewness_fn y;
                             anomalies =
                               (if fgt (fabs skewness) (Fl 2.0)
                                then dict_set anomalies ''skewness_anomaly''
                                       [(''detected'', PBool True),
                                        (''value'', PFloat skewness),
                                        (''reason'', PStr ''Unusual distribution skewness'')]
                                else anomalies)
                         in Inr anomalies)))))"

subsection \<open>The audio pipeline\<close>

text \<open>
  The part of \<open>AudioAnalyzer.analyze\<close> after the three extractor calls, as a function of
  their outputs: the three \<open>anomalies.update(...)\<close>, the three entries of
  \<open>analysis_details\<close>, the score, the flag and the result.
\<close>

definition audio_assemble ::
  "string \<Rightarrow> anomaly_set \<Rightarrow> anomaly_set \<Rightarrow> anomaly_set \<Rightarrow> analysis_result" where
  "audio_assemble path_string spectral_anomalies temporal_anomalies statistical_anomalies =
     (let anomalies = [];
          analysis_details = [];
          anomalies = dict_update anomalies spectral_anomalies;
          analysis_details = dict_set analysis_details ''spectral'' spectral_anomalies;
          anomalies = dict_update anomalies temporal_anomalies;
          analysis_details = dict_set analysis_details ''temporal'' temporal_anomalies;
          anomalies = dict_update anomalies statistical_anomalies;
          analysis_details = dict_set analysis_details ''statistical'' statistical_anomalies;
          confidence = audio_calculate_confidence anomalies;
          is_likely_ai = (confidence > 0.5)
      in \<lparr>file_path = path_string,
          file_type = ''audio'',
          is_likely_ai_generated = is_likely_ai,
          confidence_score = confidence,
          anomalies_detected = anomalies,
          analysis_details = analysis_details\<rparr>)"

text \<open>
  \<open>AudioAnalyzer.analyze\<close>.  Everything raised inside the \<open>try\<close> (an unbound
  \<open>librosa\<close>, a failing \<open>librosa.load\<close>, the division \<open>len(y)/sr\<close> of the log line by a
  zero rate) is re-raised as \<open>RuntimeError\<close>.
\<close>

definition AudioAnalyzer_analyze ::
  "pathlib \<Rightarrow> audio_module \<Rightarrow> base_analyzer \<Rightarrow> string
     \<Rightarrow> (error + analysis_result) \<times> event list" where
  "AudioAnalyzer_analyze fs g self p =
     (if \<not> path_exists fs p then (Inl FileNotFoundError, [])
      else if \<not> AudioAnalyzer_supports_file fs p then (Inl ValueError, [])
      else (case librosa g of
              None \<Rightarrow> (Inl RuntimeError, [])
            | Some lib \<Rightarrow>
                (case load lib p of
                   None \<Rightarrow> (Inl RuntimeError, [LoadAudio p])
                 | Some (y, sr) \<Rightarrow>
                     if sr = 0 then (Inl RuntimeError, [LoadAudio p])
                     else
                       (let spectral_anomalies = analyze_spectral_features lib y sr;
                            temporal_anomalies = analyze_temporal_features lib y sr
                        in case analyze_statistical_features (scipy_stats_global g) y of
                             Inl e \<Rightarrow> (Inl e, [LoadAudio p])
                           | Inr statistical_anomalies \<Rightarrow>
                               (Inr (audio_assemble (path_str fs p) spectral_anomalies
                                       temporal_anomalies statistical_anomalies),
                                [LoadAudio p])))))"

section \<open>The video module\<close>

text \<open>
  The array operations of \<open>numpy\<close> on images (\<open>numpy\<close> is imported unguarded, so it is
  bound whenever the module exists at all) and the functions of \<open>cv2\<close> with the methods
  of its capture object.  Every image, whatever its shape, is an \<open>ndarray\<close>: one type
  \<open>'img\<close>.  \<open>cap_frame_count\<close> is \<open>int(cap.get(cv2.CAP_PROP_FRAME_COUNT))\<close>;
  \<open>read_frame cap idx\<close> is \<open>cap.set(cv2.CAP_PROP_POS_FRAMES, idx)\<close> followed by
  \<open>cap.read()\<close>, \<open>None\<close> when \<open>ret\<close> is false.
\<close>

record 'img numpy_ops =
  img_var :: "'img \<Rightarrow> pyfloat"
  img_mean :: "'img \<Rightarrow> pyfloat"
  img_std :: "'img \<Rightarrow> pyfloat"
  channel_of :: "'img \<Rightarrow> nat \<Rightarrow> 'img"
  count_positive :: "'img \<Rightarrow> nat"
  img_size :: "'img \<Rightarrow> nat"

record ('cap, 'img) cv2_lib =
  VideoCapture :: "string \<Rightarrow> 'cap"
  isOpened :: "'cap \<Rightarrow> bool"
  cap_frame_count :: "'cap \<Rightarrow> int"
  read_frame :: "'cap \<Rightarrow> int \<Rightarrow> 'img option"
  cvtColor_BGR2GRAY :: "'img \<Rightarrow> 'img"
  Laplacian_CV_64F :: "'img \<Rightarrow> 'img"
  absdiff :: "'img \<Rightarrow> 'img \<Rightarrow> 'img"
  Canny_50_150 :: "'img \<Rightarrow> 'img"

text \<open>The globals after
  \<^verbatim>\<open>try: import cv2; VIDEO_LIBS_AVAILABLE = True
  except ImportError: VIDEO_LIBS_AVAILABLE = False\<close>\<close>

record ('cap, 'img) video_module =
  cv2 :: "('cap, 'img) cv2_lib option"
  VIDEO_LIBS_AVAILABLE :: bool

definition video_guarded_import ::
  "('cap, 'img) cv2_lib option \<Rightarrow> ('cap, 'img) video_module" where
  "video_guarded_import installed_cv2 =
     (case installed_cv2 of
        None \<Rightarrow> \<lparr>cv2 = None, VIDEO_LIBS_AVAILABLE = False\<rparr>
      | Some c \<Rightarrow> \<lparr>cv2 = Some c, VIDEO_LIBS_AVAILABLE = True\<rparr>)"

text \<open>
  After the guarded import the module body runs the class statement.  The \<open>def\<close> of
  \<open>_sample_frames\<close> carries the parameter annotation \<open>cap: cv2.VideoCapture\<close>, and
  Python (up to 3.13; the module has no \<open>from __future__ import annotations\<close>)
  evaluates a parameter annotation when the \<open>def\<close> statement is executed.  With
  \<open>cv2\<close> unbound the class body raises \<open>NameError\<close> and the module, with its class
  \<open>VideoAnalyzer\<close>, never comes to exist.
\<close>

definition video_module_import ::
  "('cap, 'img) cv2_lib option \<Rightarrow> error + ('cap, 'img) video_module" where
  "video_module_import installed_cv2 =
     (let g = video_guarded_import installed_cv2
      in case cv2 g of
           None \<Rightarrow> Inl NameError
         | Some c \<Rightarrow> Inr g)"

definition video_SUPPORTED_FORMATS :: "string set" where
  "video_SUPPORTED_FORMATS =
     {''.mp4'', ''.avi'', ''.mov'', ''.mkv'', ''.flv'', ''.wmv'', ''.webm''}"

record video_analyzer = base_analyzer +
  sample_frames :: int

definition VideoAnalyzer_init ::
  "('cap, 'img) video_module \<Rightarrow> bool \<Rightarrow> int \<Rightarrow> error + video_analyzer" where
  "VideoAnalyzer_init g v n =
     (if \<not> VIDEO_LIBS_AVAILABLE g then Inl ImportError
      else Inr \<lparr>verbose = v, sample_frames = n\<rparr>)"

definition VideoAnalyzer_supports_file :: "pathlib \<Rightarrow> string \<Rightarrow> bool" where
  "VideoAnalyzer_supports_file fs p \<longleftrightarrow> lower (path_suffix fs p) \<in> video_SUPPORTED_FORMATS"

subsection \<open>Frame sampling\<close>

text \<open>\<open>range(n)\<close>: empty when \<open>n\<close> is not positive.\<close>

definition py_range :: "int \<Rightarrow> int list" where
  "py_range n = map int [0..<nat n]"

text \<open>
  \<open>np.linspace(start, stop, num, dtype=int)\<close> with integer arguments.  A negative
  \<open>num\<close> raises \<open>ValueError\<close>.  The end points are converted to doubles,
  \<open>delta = stop - start\<close> and \<open>div = num - 1\<close>.  For \<open>div > 0\<close> the samples are
  \<open>i * step\<close> with \<open>step = delta / div\<close> (or \<open>(i / div) * delta\<close> when the step
  is zero); otherwise they are \<open>i * delta\<close>.  Then \<open>start\<close> is added, the last
  sample is overwritten with \<open>stop\<close> when \<open>num > 1\<close>, and for the integer type every
  sample is rounded down.  Every operation is a float operation; the counter \<open>i\<close> of
  \<open>arange\<close> is exact.
\<close>

definition np_linspace_int :: "int \<Rightarrow> int \<Rightarrow> int \<Rightarrow> error + int list" where
  "np_linspace_int start stop num =
     (if num < 0 then Inl ValueError
      else
        (let divisor = num - 1;
             start_f = dbl (of_int start);
             stop_f = dbl (of_int stop);
             delta = dbl (stop_f - start_f);
             y = (if divisor > 0 then
                    (let step = dbl_div delta (of_int divisor)
                     in if step = 0
                        then map (\<lambda>i. dbl_mul (dbl_div (of_nat i) (of_int divisor)) delta)
                               [0..<nat num]
                        else map (\<lambda>i. dbl_mul (of_nat i) step) [0..<nat num])
                  else map (\<lambda>i. dbl_mul (of_nat i) delta) [0..<nat num]);
             y = map (\<lambda>v. dbl_add v start_f) y;
             y = (if num > 1 then butlast y @ [stop_f] else y)
         in Inr (map floor y)))"

text \<open>The \<open>indices\<close> of \<open>_sample_frames\<close>, and the method itself: the frames whose
  read succeeded, in index order.\<close>

definition sample_indices :: "int \<Rightarrow> int \<Rightarrow> error + int list" where
  "sample_indices n frame_count =
     (if frame_count \<le> n then Inr (py_range frame_count)
      else np_linspace_int 0 (frame_count - 1) n)"

definition VideoAnalyzer_sample_frames ::
  "('cap, 'img) cv2_lib \<Rightarrow> video_analyzer \<Rightarrow> 'cap \<Rightarrow> int \<Rightarrow> error + 'img list" where
  "VideoAnalyzer_sample_frames cv self cap frame_count =
     (case sample_indices (sample_frames self) frame_count of
        Inl e \<Rightarrow> Inl e
      | Inr indices \<Rightarrow> Inr (List.map_filter (read_frame cv cap) indices))"

subsection \<open>Video feature extractors\<close>

definition analyze_frame_quality ::
  "'img numpy_ops \<Rightarrow> ('cap, 'img) cv2_lib \<Rightarrow> 'img list \<Rightarrow> anomaly_set" where
  "analyze_frame_quality np cv frames =
     (let anomalies = [];
          sharpness_scores =
            map (\<lambda>frame. img_var np (Laplacian_CV_64F cv (cvtColor_BGR2GRAY cv frame))) frames;
          mean_sharpness = np_mean sharpness_scores;
          std_sharpness = np_std sharpness_scores;
          anomalies =
            (if flt std_sharpness (Fl 10) \<and> fgt mean_sharpness (Fl 50)
             then dict_set anomalies ''sharpness_anomaly''
                    [(''detected'', PBool True),
                     (''mean'', PFloat mean_sharpness),
                     (''std'', PFloat std_sharpness),
                     (''reason'', PStr ''Unnaturally consistent sharpness across frames'')]
             else anomalies);
          anomalies =
            (if flt mean_sharpness (Fl 30)
             then dict_set anomalies ''low_sharpness_anomaly''
                    [(''detected'', PBool True),
                     (''mean'', PFloat mean_sharpness),
                     (''reason'', PStr ''Unusually low overall sharpness'')]
             else anomalies)
      in anomalies)"

definition analyze_temporal_consistency ::
  "'img numpy_ops \<Rightarrow> ('cap, 'img) cv2_lib \<Rightarrow> 'img list \<Rightarrow> anomaly_set" where
  "analyze_temporal_consistency np cv frames =
     (let anomalies = []
      in if length frames < 2 then anomalies
         else
           (let frame_diffs =
                  map (\<lambda>i. img_mean np (absdiff cv (cvtColor_BGR2GRAY cv (frames ! i))
                                                   (cvtColor_BGR2GRAY cv (frames ! (i + 1)))))
                      [0..<length frames - 1];
                mean_diff = np_mean frame_diffs;
                std_diff = np_std frame_diffs;
                anomalies =
                  (if flt std_diff (Fl 1.0) \<and> fgt mean_diff (Fl 5)
                   then dict_set anomalies ''temporal_consistency_anomaly''
                          [(''detected'', PBool True),
                           (''mean_diff'', PFloat mean_diff),
                           (''std_diff'', PFloat std_diff),
                           (''reason'', PStr ''Suspiciously consistent temporal changes'')]
                   else anomalies);
                max_diff = np_max frame_diffs;
                anomalies =
                  (if fgt max_diff (fmul mean_diff (Fl 5))
                   then dict_set anomalies ''temporal_jump_anomaly''
                          [(''detected'', PBool True),
                           (''max_diff'', PFloat max_diff),
                           (''mean_diff'', PFloat mean_diff),
                           (''reason'', PStr ''Unusual temporal discontinuities detected'')]
                   else anomalies)
            in anomalies))"

definition analyze_color_distribution :: "'img numpy_ops \<Rightarrow> 'img list \<Rightarrow> anomaly_set" where
  "analyze_color_distribution np frames =
     (let anomalies = [];
          color_means =
            concat (map (\<lambda>frame. map (\<lambda>ch. img_mean np (channel_of np frame ch)) [0..<3]) frames);
          color_stds =
            concat (map (\<lambda>frame. map (\<lambda>ch. img_std np (channel_of np frame ch)) [0..<3]) frames);
          overall_mean = np_mean color_means;
          overall_std = np_mean color_stds;
          anomalies =
            (if flt overall_std (Fl 20)
             then dict_set anomalies ''color_distribution_anomaly''
                    [(''detected'', PBool True),
                     (''mean'', PFloat overall_mean),
                     (''std'', PFloat overall_std),
                     (''reason'', PStr ''Unnaturally low color variation'')]
             else anomalies);
          color_channel_means =
            map (\<lambda>ch. map (\<lambda>frame. img_mean np (channel_of np frame ch)) frames) [0..<3];
          channel_avgs = map np_mean color_channel_means;
          channel_imbalance = np_std channel_avgs;
          anomalies =
            (if fgt channel_imbalance (Fl 30)
             then dict_set anomalies ''color_balance_anomaly''
                    [(''detected'', PBool True),
                     (''channel_means'', PList (map PFloat channel_avgs)),
                     (''imbalance'', PFloat channel_imbalance),
                     (''reason'', PStr ''Unusual color channel imbalance'')]
             else anomalies)
      in anomalies)"

definition analyze_edges ::
  "'img numpy_ops \<Rightarrow> ('cap, 'img) cv2_lib \<Rightarrow> 'img list \<Rightarrow> anomaly_set" where
  "analyze_edges np cv frames =
     (let anomalies = [];
          edge_densities =
            map (\<lambda>frame. let edges = Canny_50_150 cv (cvtColor_BGR2GRAY cv frame)
                         in fdiv (Fl (real (count_positive np edges)))
                                 (Fl (real (img_size np edges))))
                frames;
          mean_density = np_mean edge_densities;
          std_density = np_std edge_densities;
          anomalies =
            (if flt std_density (Fl 0.001)
             then dict_set anomalies ''edge_consistency_anomaly''
                    [(''detected'', PBool True),
                     (''mean_density'', PFloat mean_density),
                     (''std_density'', PFloat std_density),
                     (''reason'', PStr ''Suspiciously consistent edge patterns'')]
             else anomalies);
          anomalies =
            (if flt mean_density (Fl 0.02)
             then dict_set anomalies ''low_edge_density_anomaly''
                    [(''detected'', PBool True),
                     (''mean_density'', PFloat mean_density),
                     (''reason'', PStr ''Unusually low edge density'')]
             else anomalies)
      in anomalies)"

subsection \<open>The video pipeline\<close>

text \<open>The part of \<open>VideoAnalyzer.analyze\<close> after the four extractor calls, as a function
  of their outputs.\<close>

definition video_assemble ::
  "string \<Rightarrow> anomaly_set \<Rightarrow> anomaly_set \<Rightarrow> anomaly_set \<Rightarrow> anomaly_set \<Rightarrow> analysis_result" where
  "video_assemble path_string quality_anomalies temporal_anomalies color_anomalies
                  edge_anomalies =
     (let anomalies = [];
          analysis_details = [];
          anomalies = dict_update anomalies quality_anomalies;
          analysis_details = dict_set analysis_details ''quality'' quality_anomalies;
          anomalies = dict_update anomalies temporal_anomalies;
          analysis_details = dict_set analysis_details ''temporal'' temporal_anomalies;
          anomalies = dict_update anomalies color_anomalies;
          analysis_details = dict_set analysis_details ''color'' color_anomalies;
          anomalies = dict_update anomalies edge_anomalies;
          analysis_details = dict_set analysis_details ''edges'' edge_anomalies;
          confidence = video_calculate_confidence anomalies;
          is_likely_ai = (confidence > 0.5)
      in \<lparr>file_path = path_string,
          file_type = ''video'',
          is_likely_ai_generated = is_likely_ai,
          confidence_score = confidence,
          anomalies_detected = anomalies,
          analysis_details = analysis_details\<rparr>)"

text \<open>
  \<open>VideoAnalyzer.analyze\<close>.  The \<open>try\<close> body can raise only through
  \<open>_sample_frames\<close>; the \<open>finally\<close> clause releases the capture either way.
\<close>

definition VideoAnalyzer_analyze ::
  "pathlib \<Rightarrow> 'img numpy_ops \<Rightarrow> ('cap, 'img) video_module \<Rightarrow> video_analyzer \<Rightarrow> string
     \<Rightarrow> (error + analysis_result) \<times> event list" where
  "VideoAnalyzer_analyze fs np g self p =
     (if \<not> path_exists fs p then (Inl FileNotFoundError, [])
      else if \<not> VideoAnalyzer_supports_file fs p then (Inl ValueError, [])
      else (case cv2 g of
              None \<Rightarrow> (Inl NameError, [])
            | Some cv \<Rightarrow>
                (let cap = VideoCapture cv p
                 in if \<not> isOpened cv cap then (Inl RuntimeError, [OpenVideo p])
                    else
                      (let frame_count = cap_frame_count cv cap
                       in case VideoAnalyzer_sample_frames cv self cap frame_count of
                            Inl e \<Rightarrow> (Inl e, [OpenVideo p, ReleaseVideo])
                          | Inr frames \<Rightarrow>
                              (let quality_anomalies = analyze_frame_quality np cv frames;
                                   temporal_anomalies =
                                     analyze_temporal_consistency np cv frames;
                                   color_anomalies = analyze_color_distribution np frames;
                                   edge_anomalies = analyze_edges np cv frames
                               in (Inr (video_assemble (path_str fs p) quality_anomalies
                                          temporal_anomalies color_anomalies edge_anomalies),
                                   [OpenVideo p, ReleaseVideo]))))))"

section \<open>The package\<close>

text \<open>
  \<open>deepfake_check/__init__.py\<close> imports \<open>.analyzer\<close>, which imports the audio module
  and then the video module; importing any module of the package runs this first.  The
  package, and with it every analyzer class, exists only if both module bodies ran to
  their end.
\<close>

definition package_import ::
  "librosa_lib option \<Rightarrow> stats_module option \<Rightarrow> ('cap, 'img) cv2_lib option
     \<Rightarrow> error + (audio_module \<times> ('cap, 'img) video_module)" where
  "package_import installed_librosa installed_scipy installed_cv2 =
     (let ga = audio_module_import installed_librosa installed_scipy
      in case video_module_import installed_cv2 of
           Inl e \<Rightarrow> Inl e
         | Inr gv \<Rightarrow> Inr (ga, gv))"

section \<open>The dispatching analyzer\<close>

text \<open>
  \<open>DeepfakeAnalyzer\<close> holds the two modality analyzers, built on first use.  Its
  \<open>analyze\<close> returns the outcome, the analyzer object as the call leaves it, and the
  effects performed.
\<close>

record deepfake_analyzer =
  dispatcher_verbose :: bool
  audio_analyzer :: "base_analyzer option"
  video_analyzer :: "video_analyzer option"

definition DeepfakeAnalyzer_init :: "bool \<Rightarrow> deepfake_analyzer" where
  "DeepfakeAnalyzer_init v =
     \<lparr>dispatcher_verbose = v, audio_analyzer = None, video_analyzer = None\<rparr>"

definition get_audio_analyzer ::
  "audio_module \<Rightarrow> deepfake_analyzer \<Rightarrow> error + (base_analyzer \<times> deepfake_analyzer)" where
  "get_audio_analyzer g self =
     (case audio_analyzer self of
        Some a \<Rightarrow> Inr (a, self)
      | None \<Rightarrow>
          (case AudioAnalyzer_init g (dispatcher_verbose self) of
             Inl e \<Rightarrow> Inl e
           | Inr a \<Rightarrow> Inr (a, self\<lparr>audio_analyzer := Some a\<rparr>)))"

definition get_video_analyzer ::
  "('cap, 'img) video_module \<Rightarrow> deepfake_analyzer
     \<Rightarrow> error + (video_analyzer \<times> deepfake_analyzer)" where
  "get_video_analyzer g self =
     (case video_analyzer self of
        Some a \<Rightarrow> Inr (a, self)
      | None \<Rightarrow>
          (case VideoAnalyzer_init g (dispatcher_verbose self) 30 of
             Inl e \<Rightarrow> Inl e
           | Inr a \<Rightarrow> Inr (a, self\<lparr>video_analyzer := Some a\<rparr>)))"

definition DeepfakeAnalyzer_analyze ::
  "pathlib \<Rightarrow> 'img numpy_ops \<Rightarrow> audio_module \<Rightarrow> ('cap, 'img) video_module
     \<Rightarrow> deepfake_analyzer \<Rightarrow> string
     \<Rightarrow> (error + analysis_result) \<times> deepfake_analyzer \<times> event list" where
  "DeepfakeAnalyzer_analyze fs np ga gv self p =
     (if \<not> path_exists fs p then (Inl FileNotFoundError, self, [])
      else
        (let suffix = lower (path_suffix fs p)
         in if suffix \<in> audio_SUPPORTED_FORMATS then
              (case get_audio_analyzer ga self of
                 Inl e \<Rightarrow> (Inl e, self, [])
               | Inr (analyzer, self') \<Rightarrow>
                   (case AudioAnalyzer_analyze fs ga analyzer p of
                      (outcome, events) \<Rightarrow> (outcome, self', events)))
            else if suffix \<in> video_SUPPORTED_FORMATS then
              (case get_video_analyzer gv self of
                 Inl e \<Rightarrow> (Inl e, self, [])
               | Inr (analyzer, self') \<Rightarrow>
                   (case VideoAnalyzer_analyze fs np gv analyzer p of
                      (outcome, events) \<Rightarrow> (outcome, self', events)))
            else (Inl ValueError, self, [])))"

section \<open>An example environment\<close>

text \<open>
  A small concrete environment on which the theorems below are instantiated.  Three
  paths exist and the suffix of a path is its last four characters.  The audio library
  decodes every file to a two-sample signal whose spectral centroid has standard
  deviation 200.  A video capture is its path, every video has three frames, and an image
  is a single grey level: frame \<open>i\<close> has level \<open>10 * i\<close>.  The statistics
  namespace is that of \<open>scipy.stats\<close> with constant functions.
\<close>

definition example_pathlib :: pathlib where
  "example_pathlib =
     \<lparr>path_exists = (\<lambda>p. p \<in> {''clip.MP4'', ''voice.wav'', ''notes.xyz''}),
      path_suffix = (\<lambda>p. drop (length p - 4) p),
      path_str = (\<lambda>p. p)\<rparr>"

definition example_librosa :: librosa_lib where
  "example_librosa =
     \<lparr>load = (\<lambda>p. Some ([Fl 0, Fl 1], 8000)),
      spectral_centroid = (\<lambda>y sr. [Fl 0, Fl 400]),
      spectral_rolloff = (\<lambda>y sr. [Fl 1000]),
      zero_crossing_rate = (\<lambda>y. [Fl 0.1, Fl 0.1]),
      rms = (\<lambda>y. [Fl 1, Fl 1]),
      onset_strength = (\<lambda>y sr. []),
      onset_detect = (\<lambda>env sr. [])\<rparr>"

definition example_numpy :: "real numpy_ops" where
  "example_numpy =
     \<lparr>img_var = (\<lambda>a. Fl 80),
      img_mean = (\<lambda>a. Fl a),
      img_std = (\<lambda>a. Fl 0),
      channel_of = (\<lambda>a ch. a),
      count_positive = (\<lambda>a. 0),
      img_size = (\<lambda>a. 1)\<rparr>"

definition example_cv2 :: "(string, real) cv2_lib" where
  "example_cv2 =
     \<lparr>VideoCapture = (\<lambda>p. p),
      isOpened = (\<lambda>cap. True),
      cap_frame_count = (\<lambda>cap. 3),
      read_frame = (\<lambda>cap idx. Some (10 * real_of_int idx)),
      cvtColor_BGR2GRAY = (\<lambda>a. a),
      Laplacian_CV_64F = (\<lambda>a. a),
      absdiff = (\<lambda>a b. \<bar>a - b\<bar>),
      Canny_50_150 = (\<lambda>a. a)\<rparr>"

definition example_scipy_stats :: stats_module where
  "example_scipy_stats = scipy_stats (\<lambda>y. Fl 3) (\<lambda>y. Fl 0)"

definition example_audio_module :: audio_module where
  "example_audio_module = audio_module_import (Some example_librosa) (Some example_scipy_stats)"

definition example_video_module :: "(string, real) video_module" where
  "example_video_module = \<lparr>cv2 = Some example_cv2, VIDEO_LIBS_AVAILABLE = True\<rparr>"

text \<open>
  A statistics namespace that does provide \<open>skewness\<close>, as the source expects of
  \<open>scipy.stats\<close>; with it the audio pipeline runs to its end.
\<close>

definition stats_with_skewness :: stats_module where
  "stats_with_skewness =
     (\<lambda>name. if name = ''kurtosis'' then Some (\<lambda>y. Fl 0.5)
             else if name = ''skewness'' then Some (\<lambda>y. Fl 3)
             else None)"


section \<open>Properties of the rounding\<close>

lemma powi_Suc: "(2::real) powi (e + 1) = 2 * 2 powi e"
  by (simp add: power_int_add)

lemma ilog2_up_bounds:
  "1 \<le> x \<Longrightarrow> x < 2 ^ n \<Longrightarrow>
   2 powi (ilog2_up n x) \<le> x \<and> x < 2 powi (ilog2_up n x + 1)"
proof (induction n arbitrary: x)
  case 0
  then show ?case by simp
next
  case (Suc n)
  show ?case
  proof (cases "x < 2")
    case True
    with Suc.prems show ?thesis by simp
  next
    case False
    then have "1 \<le> x / 2" "x / 2 < 2 ^ n"
      using Suc.prems by simp_all
    from Suc.IH [OF this] have "2 powi (ilog2_up n (x / 2)) \<le> x / 2"
      "x / 2 < 2 powi (ilog2_up n (x / 2) + 1)" by simp_all
    moreover have "(2::real) powi (1 + ilog2_up n (x / 2)) = 2 * 2 powi (ilog2_up n (x / 2))"
      "(2::real) powi (1 + ilog2_up n (x / 2) + 1) = 2 * (2 * 2 powi (ilog2_up n (x / 2)))"
      using powi_Suc [of "ilog2_up n (x / 2)"] powi_Suc [of "ilog2_up n (x / 2) + 1"]
      by (simp_all add: ac_simps)
    ultimately show ?thesis
      using False unfolding powi_Suc by (simp del: power_int_add)
  qed
qed

lemma ilog2_down_bounds:
  "0 < x \<Longrightarrow> x < 2 \<Longrightarrow> 1 \<le> x * 2 ^ n \<Longrightarrow>
   2 powi (ilog2_down n x) \<le> x \<and> x < 2 powi (ilog2_down n x + 1)"
proof (induction n arbitrary: x)
  case 0
  then show ?case by simp
next
  case (Suc n)
  show ?case
  proof (cases "1 \<le> x")
    case True
    with Suc.prems show ?thesis by simp
  next
    case False
    then have "0 < 2 * x" "2 * x < 2" "1 \<le> 2 * x * 2 ^ n"
      using Suc.prems by (simp_all add: mult.assoc mult.left_commute)
    from Suc.IH [OF this]
    have a: "2 powi (ilog2_down n (2 * x)) \<le> 2 * x"
      and b: "2 * x < 2 powi (ilog2_down n (2 * x) + 1)" by simp_all
    have "(2::real) powi (ilog2_down n (2 * x)) = 2 * 2 powi (ilog2_down n (2 * x) - 1)"
      using powi_Suc [of "ilog2_down n (2 * x) - 1"] by simp
    with a b show ?thesis
      using False by (simp add: powi_Suc)
  qed
qed

lemma suc_le_two_power: "real (Suc k) \<le> 2 ^ k"
proof -
  have "Suc k \<le> 2 ^ k" by (simp add: Suc_leI)
  then have "real (Suc k) \<le> real (2 ^ k)" by (simp only: of_nat_le_iff)
  then show ?thesis by simp
qed

lemma binade_bounds:
  assumes "0 < x"
  shows "2 powi (binade x) \<le> x" and "x < 2 powi (binade x + 1)"
proof -
  have "2 powi (binade x) \<le> x \<and> x < 2 powi (binade x + 1)"
  proof (cases "1 \<le> x")
    case True
    have "x < of_int \<lfloor>x\<rfloor> + 1" by linarith
    also have "\<dots> = real (Suc (nat \<lfloor>x\<rfloor>))" using True by simp
    also have "\<dots> \<le> 2 ^ nat \<lfloor>x\<rfloor>"
      using suc_le_two_power [of "nat \<lfloor>x\<rfloor>"] .
    finally have "x < 2 ^ nat \<lfloor>x\<rfloor>" .
    with True show ?thesis
      by (simp add: binade_def ilog2_up_bounds)
  next
    case False
    have "1 / x \<le> of_int \<lceil>1 / x\<rceil>" by linarith
    also have "\<dots> = real (nat \<lceil>1 / x\<rceil>)" using assms by simp
    also have "\<dots> \<le> 2 ^ nat \<lceil>1 / x\<rceil>"
      using of_nat_less_two_power [of "nat \<lceil>1 / x\<rceil>", where 'a = real] by linarith
    finally have "1 \<le> x * 2 ^ nat \<lceil>1 / x\<rceil>"
      using assms by (simp add: field_simps)
    with False assms show ?thesis
      by (simp add: binade_def ilog2_down_bounds)
  qed
  then show "2 powi (binade x) \<le> x" and "x < 2 powi (binade x + 1)" by simp_all
qed

lemma powi_less_cancel: "(2::real) powi a < 2 powi b \<Longrightarrow> a < b"
  by (metis not_less power_int_increasing one_le_numeral)

lemma binade_unique:
  assumes "0 < x" "2 powi e \<le> x" "x < 2 powi (e + 1)"
  shows "binade x = e"
proof -
  have "(2::real) powi e < 2 powi (binade x + 1)"
    using assms(2) binade_bounds(2) [OF assms(1)] by linarith
  then have "e < binade x + 1" by (rule powi_less_cancel)
  moreover have "(2::real) powi (binade x) < 2 powi (e + 1)"
    using assms(3) binade_bounds(1) [OF assms(1)] by linarith
  then have "binade x < e + 1" by (rule powi_less_cancel)
  ultimately show ?thesis by simp
qed

lemma binade_mono:
  assumes "0 < x" "x \<le> y"
  shows "binade x \<le> binade y"
proof -
  have "(2::real) powi (binade x) < 2 powi (binade y + 1)"
    using binade_bounds(1) [OF assms(1)] binade_bounds(2) [of y] assms by linarith
  then have "binade x < binade y + 1" by (rule powi_less_cancel)
  then show ?thesis by simp
qed

lemma rhe_of_int [simp]: "round_half_even (of_int n) = n"
  by (simp add: round_half_even_def)

lemma rhe_le: "y \<le> of_int n \<Longrightarrow> round_half_even y \<le> n"
proof -
  assume a: "y \<le> of_int n"
  show ?thesis
  proof (cases "y = of_int n")
    case True
    then show ?thesis by simp
  next
    case False
    with a have "y < of_int n" by simp
    then have "\<lfloor>y\<rfloor> < n" by (simp add: floor_less_iff)
    then show ?thesis
      by (auto simp: round_half_even_def Let_def)
  qed
qed

lemma rhe_ge: "of_int n \<le> y \<Longrightarrow> n \<le> round_half_even y"
proof -
  assume "of_int n \<le> y"
  then have "n \<le> \<lfloor>y\<rfloor>" by (simp add: le_floor_iff)
  then show ?thesis
    by (auto simp: round_half_even_def Let_def)
qed

lemma rhe_err: "\<bar>of_int (round_half_even y) - y\<bar> \<le> 1 / 2"
proof -
  have "of_int \<lfloor>y\<rfloor> \<le> y" "y < of_int \<lfloor>y\<rfloor> + 1" by linarith+
  then show ?thesis
    by (auto simp: round_half_even_def Let_def)
qed

lemma rhe_near_above:
  assumes "y \<le> of_int n" "of_int n - y < 1 / 2"
  shows "round_half_even y = n"
proof -
  have "round_half_even y \<le> n" using assms(1) by (rule rhe_le)
  moreover have "n \<le> round_half_even y"
  proof (rule ccontr)
    assume "\<not> n \<le> round_half_even y"
    then have "round_half_even y \<le> n - 1" by simp
    then have "real_of_int (round_half_even y) \<le> of_int n - 1" by (metis of_int_le_iff of_int_diff of_int_1)
    with rhe_err [of y] assms show False by linarith
  qed
  ultimately show ?thesis by simp
qed


lemma dbl_0 [simp]: "dbl 0 = 0"
  by (simp add: dbl_def)

lemma dbl_pos_form:
  "0 < x \<Longrightarrow>
   dbl x = of_int (round_half_even (x / 2 powi (binade x - 52))) * 2 powi (binade x - 52)"
  by (simp add: dbl_def Let_def)

lemma dbl_eval:
  assumes "0 < x" "2 powi e \<le> x" "x < 2 powi (e + 1)"
  shows "dbl x = of_int (round_half_even (x / 2 powi (e - 52))) * 2 powi (e - 52)"
  using binade_unique [OF assms] dbl_pos_form [OF assms(1)] by simp

lemma dbl_nonneg: "0 \<le> x \<Longrightarrow> 0 \<le> dbl x"
proof (cases "x = 0")
  case True
  then show ?thesis by simp
next
  case False
  assume "0 \<le> x"
  with False have x: "0 < x" by simp
  have "(0::real) \<le> x / 2 powi (binade x - 52)"
    using x by simp
  then have "0 \<le> round_half_even (x / 2 powi (binade x - 52))"
    using rhe_ge [of 0] by simp
  then show ?thesis
    by (simp add: dbl_pos_form [OF x])
qed

lemma powi_split:
  assumes "b \<le> c"
  shows "(2::real) powi c = of_int (2 ^ nat (c - b)) * 2 powi b"
proof -
  have "(2::real) powi c = 2 powi (c - b) * 2 powi b"
    by (simp flip: power_int_add)
  also have "(2::real) powi (c - b) = 2 ^ nat (c - b)"
    using assms by (simp add: power_int_def)
  finally show ?thesis by simp
qed

lemma dbl_le_grid:
  assumes x: "0 < x" and le: "x \<le> of_int k * 2 powi c" and c: "binade x - 52 \<le> c"
  shows "dbl x \<le> of_int k * 2 powi c"
proof -
  let ?q = "(2::real) powi (binade x - 52)"
  have q: "0 < ?q" by simp
  have g: "of_int k * (2::real) powi c = of_int (k * 2 ^ nat (c - (binade x - 52))) * ?q"
    by (simp add: powi_split [OF c])
  have "x / ?q \<le> of_int (k * 2 ^ nat (c - (binade x - 52)))"
    using le q unfolding g by (simp add: field_simps)
  then have "round_half_even (x / ?q) \<le> k * 2 ^ nat (c - (binade x - 52))"
    by (rule rhe_le)
  then have "real_of_int (round_half_even (x / ?q)) \<le> of_int (k * 2 ^ nat (c - (binade x - 52)))"
    by (simp only: of_int_le_iff)
  then have "of_int (round_half_even (x / ?q)) * ?q
               \<le> of_int (k * 2 ^ nat (c - (binade x - 52))) * ?q"
    using q by (simp only: mult_le_cancel_right_pos)
  then show ?thesis
    unfolding dbl_pos_form [OF x] g .
qed

lemma dbl_ge_grid:
  assumes x: "0 < x" and ge: "of_int k * 2 powi c \<le> x" and c: "binade x - 52 \<le> c"
  shows "of_int k * 2 powi c \<le> dbl x"
proof -
  let ?q = "(2::real) powi (binade x - 52)"
  have q: "0 < ?q" by simp
  have g: "of_int k * (2::real) powi c = of_int (k * 2 ^ nat (c - (binade x - 52))) * ?q"
    by (simp add: powi_split [OF c])
  have "of_int (k * 2 ^ nat (c - (binade x - 52))) \<le> x / ?q"
    using ge q unfolding g by (simp add: field_simps)
  then have "k * 2 ^ nat (c - (binade x - 52)) \<le> round_half_even (x / ?q)"
    by (rule rhe_ge)
  then have "real_of_int (k * 2 ^ nat (c - (binade x - 52))) \<le> of_int (round_half_even (x / ?q))"
    by (simp only: of_int_le_iff)
  then have "of_int (k * 2 ^ nat (c - (binade x - 52))) * ?q
               \<le> of_int (round_half_even (x / ?q)) * ?q"
    using q by (simp only: mult_le_cancel_right_pos)
  then show ?thesis
    unfolding dbl_pos_form [OF x] g .
qed

lemma dbl_grid_fix:
  assumes "0 < x" "x = of_int k * 2 powi c" "binade x - 52 \<le> c"
  shows "dbl x = x"
  using dbl_le_grid [OF assms(1) _ assms(3), of k] dbl_ge_grid [OF assms(1) _ assms(3), of k]
    assms(2) by simp

lemma binade_less_53:
  assumes "0 < x" "x < 2 ^ 53"
  shows "binade x \<le> 52"
proof -
  have "(2::real) powi (binade x) < 2 powi 53"
    using binade_bounds(1) [OF assms(1)] assms(2) by simp
  then have "binade x < 53" by (rule powi_less_cancel)
  then show ?thesis by simp
qed

lemma dbl_of_int:
  assumes "0 \<le> k" "k < 2 ^ 53"
  shows "dbl (of_int k) = of_int k"
proof (cases "k = 0")
  case True
  then show ?thesis by simp
next
  case False
  with assms have pos: "0 < real_of_int k" by simp
  have "real_of_int k < 2 ^ 53"
    using assms(2) by (metis of_int_less_iff of_int_numeral of_int_power)
  then have "binade (real_of_int k) - 52 \<le> 0"
    using binade_less_53 [OF pos] by simp
  then show ?thesis
    using dbl_grid_fix [OF pos, of k 0] by simp
qed

lemma dbl_err: "\<bar>dbl x - x\<bar> \<le> 2 powi (- 53) * \<bar>x\<bar>"
proof (cases "x = 0")
  case True
  then show ?thesis by simp
next
  case False
  then have ax: "0 < \<bar>x\<bar>" by simp
  let ?q = "(2::real) powi (binade \<bar>x\<bar> - 52)"
  have q: "0 < ?q" by simp
  have "dbl x - x = (of_int (round_half_even (x / ?q)) - x / ?q) * ?q"
    using False q by (simp add: dbl_def Let_def field_simps)
  then have "\<bar>dbl x - x\<bar> = \<bar>of_int (round_half_even (x / ?q)) - x / ?q\<bar> * ?q"
    using q by (simp add: abs_mult)
  also have "\<dots> \<le> 1 / 2 * ?q"
    using rhe_err [of "x / ?q"] q by (intro mult_right_mono) simp_all
  also have "1 / 2 * ?q = 2 powi (- 53) * 2 powi (binade \<bar>x\<bar>)"
    by (simp add: power_int_diff power_int_minus)
  also have "\<dots> \<le> 2 powi (- 53) * \<bar>x\<bar>"
    using binade_bounds(1) [OF ax] by (intro mult_left_mono) simp_all
  finally show ?thesis .
qed

lemma dbl_idem:
  assumes "0 \<le> x"
  shows "dbl (dbl x) = dbl x"
proof (cases "x = 0")
  case True
  then show ?thesis by simp
next
  case False
  with assms have x: "0 < x" by simp
  let ?b = "binade x"
  let ?m = "round_half_even (x / 2 powi (?b - 52))"
  have form: "dbl x = of_int ?m * 2 powi (?b - 52)"
    by (rule dbl_pos_form [OF x])
  have lo: "of_int 1 * 2 powi ?b \<le> dbl x"
    using binade_bounds(1) [OF x] by (intro dbl_ge_grid [OF x]) simp_all
  have hi: "dbl x \<le> of_int 1 * 2 powi (?b + 1)"
    using binade_bounds(2) [OF x] by (intro dbl_le_grid [OF x]) simp_all
  have p: "(0::real) < 2 powi ?b" by simp
  have lo': "2 powi ?b \<le> dbl x" using lo by simp
  have pos: "0 < dbl x" using p lo' by linarith
  show ?thesis
  proof (cases "dbl x < 2 powi (?b + 1)")
    case True
    with lo pos have "binade (dbl x) = ?b"
      by (intro binade_unique) simp_all
    then show ?thesis
      using dbl_grid_fix [OF pos form] by simp
  next
    case False
    with hi have eq: "dbl x = of_int 1 * 2 powi (?b + 1)" by simp
    have p1: "(0::real) < 2 powi (?b + 1)" by simp
    have eq': "dbl x = 2 powi (?b + 1)" using eq by simp
    have "binade (dbl x) = ?b + 1"
    proof (rule binade_unique [OF pos])
      show "2 powi (?b + 1) \<le> dbl x" using eq' by simp
      show "dbl x < 2 powi (?b + 1 + 1)"
        unfolding powi_Suc [of "?b + 1"] using eq' p1 by linarith
    qed
    then show ?thesis
      using dbl_grid_fix [OF pos eq] by simp
  qed
qed


lemma rhe_eval:
  assumes "of_int m - 1 / 2 < y" "y < of_int m + 1 / 2"
  shows "round_half_even y = m"
proof (cases "y \<le> of_int m")
  case True
  then show ?thesis using assms(1) by (intro rhe_near_above) linarith+
next
  case False
  then have "\<lfloor>y\<rfloor> = m" using assms(2) by (intro floor_unique) linarith+
  then show ?thesis using assms(2) by (simp add: round_half_even_def Let_def)
qed

lemma dbl_val:
  assumes "0 < x" "2 powi e \<le> x" "x < 2 powi (e + 1)"
    and "of_int m - 1 / 2 < x / 2 powi (e - 52)" "x / 2 powi (e - 52) < of_int m + 1 / 2"
  shows "dbl x = of_int m * 2 powi (e - 52)"
  using dbl_eval [OF assms(1-3)] rhe_eval [OF assms(4,5)] by simp

text \<open>The doubles denoted by the literals of the weight tables.\<close>

lemma dbl_quarter: "dbl (1 / 4) = 1 / 4"
  using dbl_val [of "1 / 4" "- 2" 4503599627370496]
  by (simp add: power_int_minus)

lemma dbl_3_20: "dbl (3 / 20) = 5404319552844595 / 36028797018963968"
  using dbl_val [of "3 / 20" "- 3" 5404319552844595]
  by (simp add: power_int_minus)

lemma dbl_fifth: "dbl (1 / 5) = 3602879701896397 / 18014398509481984"
  using dbl_val [of "1 / 5" "- 3" 7205759403792794]
  by (simp add: power_int_minus)

lemma dbl_tenth: "dbl (1 / 10) = 3602879701896397 / 36028797018963968"
  using dbl_val [of "1 / 10" "- 4" 7205759403792794]
  by (simp add: power_int_minus)

lemma dbl_twentieth: "dbl (1 / 20) = 3602879701896397 / 72057594037927936"
  using dbl_val [of "1 / 20" "- 5" 7205759403792794]
  by (simp add: power_int_minus)

lemma rhe_tie:
  assumes "y = of_int m + 1 / 2"
  shows "round_half_even y = (if even m then m else m + 1)"
proof -
  have "\<lfloor>y\<rfloor> = m" unfolding assms by (intro floor_unique) simp_all
  then show ?thesis by (simp add: round_half_even_def Let_def assms)
qed

lemma dbl_tie:
  assumes "0 < x" "2 powi e \<le> x" "x < 2 powi (e + 1)"
    and "x / 2 powi (e - 52) = of_int m + 1 / 2"
  shows "dbl x = of_int (if even m then m else m + 1) * 2 powi (e - 52)"
  using dbl_eval [OF assms(1-3)] rhe_tie [OF assms(4)] by simp

section \<open>Properties of the aggregator\<close>

lemma dict_get_weights:
  "dict_get (map (\<lambda>(name, w). (name, dbl w)) tbl) k (dbl dflt) = dbl (dict_get tbl k dflt)"
  by (induction tbl) (auto simp: dict_get_def)

lemma audio_literal_pos: "0 < dict_get audio_weight_literals k 0.1"
  by (auto simp: dict_get_def audio_weight_literals_def split: option.splits if_splits)

lemma video_literal_pos: "0 < dict_get video_weight_literals k 0.1"
  by (auto simp: dict_get_def video_weight_literals_def split: option.splits if_splits)

lemma audio_weight_nonneg: "0 \<le> dict_get audio_weights k (dbl 0.1)"
  unfolding audio_weights_def dict_get_weights
  using audio_literal_pos [of k] by (intro dbl_nonneg) simp

lemma video_weight_nonneg: "0 \<le> dict_get video_weights k (dbl 0.1)"
  unfolding video_weights_def dict_get_weights
  using video_literal_pos [of k] by (intro dbl_nonneg) simp

lemma fold_dbl_add_nonneg:
  assumes "\<And>k. 0 \<le> w k" "0 \<le> acc"
  shows "0 \<le> fold (\<lambda>k total. dbl_add total (w k)) ks acc"
  using assms(2)
proof (induction ks arbitrary: acc)
  case Nil
  then show ?case by simp
next
  case (Cons k ks)
  have "0 \<le> dbl_add acc (w k)"
    unfolding dbl_add_def using Cons.prems assms(1) [of k] by (intro dbl_nonneg) simp
  then show ?case
    using Cons.IH by simp
qed

lemma audio_confidence_fold:
  "audio_calculate_confidence a =
     min (fold (\<lambda>k total. dbl_add total (dict_get audio_weights k (dbl 0.1)))
            (dict_keys a) 0) 1"
  by (simp add: audio_calculate_confidence_def dict_keys_def)

lemma video_confidence_fold:
  "video_calculate_confidence a =
     min (fold (\<lambda>k total. dbl_add total (dict_get video_weights k (dbl 0.1)))
            (dict_keys a) 0) 1"
  by (simp add: video_calculate_confidence_def dict_keys_def)

lemma audio_confidence_range:
  "0 \<le> audio_calculate_confidence a \<and> audio_calculate_confidence a \<le> 1"
  using fold_dbl_add_nonneg [of "\<lambda>k. dict_get audio_weights k (dbl 0.1)" 0 "dict_keys a"]
    audio_weight_nonneg
  by (simp add: audio_confidence_fold)

lemma video_confidence_range:
  "0 \<le> video_calculate_confidence a \<and> video_calculate_confidence a \<le> 1"
  using fold_dbl_add_nonneg [of "\<lambda>k. dict_get video_weights k (dbl 0.1)" 0 "dict_keys a"]
    video_weight_nonneg
  by (simp add: video_confidence_fold)

text \<open>The rounding error of the running sum: one rounding for the literal and one for
  each addition.\<close>

lemma rounded_sum_step:
  fixes u c E d F w F' :: real
  assumes u: "0 \<le> u" and c: "1 + u \<le> c" and E: "0 \<le> E" and d: "0 \<le> d"
    and F: "\<bar>F - E\<bar> \<le> (c - 1) * E"
    and w: "\<bar>w - d\<bar> \<le> u * d"
    and F': "\<bar>F' - (F + w)\<bar> \<le> u * \<bar>F + w\<bar>"
  shows "\<bar>F' - (E + d)\<bar> \<le> (c * (1 + u) - 1) * (E + d)"
proof -
  have "c * E = E + (c - 1) * E" "(1 + u) * d = d + u * d"
    by (simp_all add: algebra_simps)
  then have aF: "\<bar>F\<bar> \<le> c * E" and aw: "\<bar>w\<bar> \<le> (1 + u) * d"
    using F E w d by linarith+
  have "\<bar>F + w\<bar> \<le> c * E + (1 + u) * d"
    using aF aw by linarith
  then have "u * \<bar>F + w\<bar> \<le> u * (c * E + (1 + u) * d)"
    using u by (rule mult_left_mono)
  with F' have 1: "\<bar>F' - (F + w)\<bar> \<le> u * (c * E + (1 + u) * d)" by linarith
  have "\<bar>F' - (E + d)\<bar> \<le> \<bar>F' - (F + w)\<bar> + \<bar>F - E\<bar> + \<bar>w - d\<bar>"
    by linarith
  with 1 F w have 2: "\<bar>F' - (E + d)\<bar> \<le> u * (c * E + (1 + u) * d) + (c - 1) * E + u * d"
    by linarith
  have "0 \<le> d * ((1 + u) * (c - (1 + u)))"
    using d u c by (intro mult_nonneg_nonneg) simp_all
  also have "d * ((1 + u) * (c - (1 + u)))
      = (c * (1 + u) - 1) * (E + d) - (u * (c * E + (1 + u) * d) + (c - 1) * E + u * d)"
    by (simp add: algebra_simps)
  finally show ?thesis using 2 by linarith
qed

lemma rounded_sum_error:
  fixes dec :: "'k \<Rightarrow> real"
  assumes pos: "\<And>k. 0 \<le> dec k"
    and E: "0 \<le> E" and F: "\<bar>F - E\<bar> \<le> ((1 + 2 powi (- 53)) ^ Suc j - 1) * E"
  shows "\<bar>fold (\<lambda>k total. dbl_add total (dbl (dec k))) ks F - (E + sum_list (map dec ks))\<bar>
           \<le> ((1 + 2 powi (- 53)) ^ Suc (j + length ks) - 1) * (E + sum_list (map dec ks))"
  using E F
proof (induction ks arbitrary: E F j)
  case Nil
  then show ?case by simp
next
  case (Cons k ks)
  let ?u = "(2::real) powi (- 53)"
  let ?c = "(1 + ?u) ^ Suc j"
  let ?F' = "dbl_add F (dbl (dec k))"
  have u: "0 \<le> ?u" by simp
  have c: "1 + ?u \<le> ?c"
    using power_increasing [of 1 "Suc j" "1 + ?u"] by simp
  have w: "\<bar>dbl (dec k) - dec k\<bar> \<le> ?u * dec k"
    using dbl_err [of "dec k"] pos [of k] by simp
  have F': "\<bar>?F' - (F + dbl (dec k))\<bar> \<le> ?u * \<bar>F + dbl (dec k)\<bar>"
    unfolding dbl_add_def by (rule dbl_err)
  have step: "\<bar>?F' - (E + dec k)\<bar> \<le> (?c * (1 + ?u) - 1) * (E + dec k)"
    using rounded_sum_step [OF u c Cons.prems(1) pos [of k] Cons.prems(2) w F'] .
  have pw: "?c * (1 + ?u) = (1 + ?u) ^ Suc (Suc j)" by simp
  have E': "0 \<le> E + dec k" using Cons.prems(1) pos [of k] by simp
  have "\<bar>fold (\<lambda>k total. dbl_add total (dbl (dec k))) ks ?F'
          - (E + dec k + sum_list (map dec ks))\<bar>
        \<le> ((1 + ?u) ^ Suc (Suc j + length ks) - 1) * (E + dec k + sum_list (map dec ks))"
    using Cons.IH [OF E', of ?F' "Suc j"] step unfolding pw by blast
  then show ?case by (simp add: add.assoc)
qed

lemma min_one_lipschitz: "\<bar>min a 1 - min b (1::real)\<bar> \<le> \<bar>a - b\<bar>"
  by (simp add: min_def)

text \<open>Roundings of the sums that the examples below run through.\<close>

lemma dbl_sum_5: "dbl (8106479329266893 / 18014398509481984) = 8106479329266893 / 18014398509481984"
  using dbl_val [of "8106479329266893 / 18014398509481984" "- 2" 8106479329266893]
  by (simp add: power_int_minus)

lemma dbl_sum_6: "dbl (19815838360430183 / 36028797018963968) = 2476979795053773 / 4503599627370496"
  using dbl_val [of "19815838360430183 / 36028797018963968" "- 1" 4953959590107546]
  by (simp add: power_int_minus)

lemma dbl_sum_7: "dbl (3602879701896397 / 36028797018963968) = 3602879701896397 / 36028797018963968"
  using dbl_val [of "3602879701896397 / 36028797018963968" "- 4" 7205759403792794]
  by (simp add: power_int_minus)

lemma dbl_sum_8: "dbl (3602879701896397 / 18014398509481984) = 3602879701896397 / 18014398509481984"
  using dbl_val [of "3602879701896397 / 18014398509481984" "- 3" 7205759403792794]
  by (simp add: power_int_minus)

lemma dbl_sum_9: "dbl (10808639105689191 / 36028797018963968) = 1351079888211149 / 4503599627370496"
  using dbl_tie [of "10808639105689191 / 36028797018963968" "- 2" 5404319552844595]
  by (simp add: power_int_minus)

lemma dbl_sum_10: "dbl (3602879701896397 / 72057594037927936) = 3602879701896397 / 72057594037927936"
  using dbl_val [of "3602879701896397 / 72057594037927936" "- 5" 7205759403792794]
  by (simp add: power_int_minus)

lemma dbl_sum_11: "dbl (18014398509481985 / 72057594037927936) = 1 / 4"
  using dbl_val [of "18014398509481985 / 72057594037927936" "- 2" 4503599627370496]
  by (simp add: power_int_minus)

lemma dbl_sum_12: "dbl (21617278211378381 / 72057594037927936) = 5404319552844595 / 18014398509481984"
  using dbl_val [of "21617278211378381 / 72057594037927936" "- 2" 5404319552844595]
  by (simp add: power_int_minus)

lemma dbl_sum_13: "dbl (5404319552844595 / 36028797018963968) = 5404319552844595 / 36028797018963968"
  using dbl_val [of "5404319552844595 / 36028797018963968" "- 3" 5404319552844595]
  by (simp add: power_int_minus)

lemma dbl_sum_14: "dbl (14411518807585587 / 36028797018963968) = 3602879701896397 / 9007199254740992"
  using dbl_tie [of "14411518807585587 / 36028797018963968" "- 2" 7205759403792793]
  by (simp add: power_int_minus)

lemma dbl_sum_15: "dbl (43234556422756765 / 72057594037927936) = 1351079888211149 / 2251799813685248"
  using dbl_val [of "43234556422756765 / 72057594037927936" "- 1" 5404319552844596]
  by (simp add: power_int_minus)

lemma dbl_sum_16: "dbl (46837436124653165 / 72057594037927936) = 2927339757790823 / 4503599627370496"
  using dbl_val [of "46837436124653165 / 72057594037927936" "- 1" 5854679515581646]
  by (simp add: power_int_minus)

lemma dbl_sum_17: "dbl (5854679515581645 / 9007199254740992) = 5854679515581645 / 9007199254740992"
  using dbl_val [of "5854679515581645 / 9007199254740992" "- 1" 5854679515581645]
  by (simp add: power_int_minus)

lemma dbl_sum_18: "dbl (50440315826549557 / 72057594037927936) = 6305039478318695 / 9007199254740992"
  using dbl_val [of "50440315826549557 / 72057594037927936" "- 1" 6305039478318695]
  by (simp add: power_int_minus)

lemma dbl_sum_19: "dbl (54043195528445957 / 72057594037927936) = 6755399441055745 / 9007199254740992"
  using dbl_val [of "54043195528445957 / 72057594037927936" "- 1" 6755399441055745]
  by (simp add: power_int_minus)

text \<open>
  C1 (as amended).  Each modality's aggregator returns the minimum of 1.0 and the float
  sum, taken from 0.0 in the insertion order of the dictionary, of the modality's table
  entry for each anomaly name present, an unlisted name counting 0.1.  The score is 0.0
  for the empty dictionary, lies between 0 and 1, and is determined by the sequence of
  anomaly names (the evidence values play no part).  It differs from the minimum of 1 and
  the exact sum of the table's decimal entries by at most the rounding of one literal and
  one addition per name: a relative error of \<open>(1 + 2^-53)^(n+1) - 1\<close> of the exact sum
  for \<open>n\<close> names.
\<close>

theorem confidence_is_capped_float_sum:
  fixes a :: "(string, 'v) pydict"
  shows "audio_calculate_confidence a =
           min (fold (\<lambda>k total. dbl_add total (dict_get audio_weights k (dbl 0.1)))
                  (dict_keys a) 0) 1
       \<and> video_calculate_confidence a =
           min (fold (\<lambda>k total. dbl_add total (dict_get video_weights k (dbl 0.1)))
                  (dict_keys a) 0) 1
       \<and> audio_calculate_confidence ([] :: (string, 'v) pydict) = 0
       \<and> video_calculate_confidence ([] :: (string, 'v) pydict) = 0
       \<and> 0 \<le> audio_calculate_confidence a \<and> audio_calculate_confidence a \<le> 1
       \<and> 0 \<le> video_calculate_confidence a \<and> video_calculate_confidence a \<le> 1
       \<and> (\<forall>b :: (string, 'v) pydict.
            dict_keys b = dict_keys a \<longrightarrow>
            audio_calculate_confidence b = audio_calculate_confidence a
          \<and> video_calculate_confidence b = video_calculate_confidence a)
       \<and> \<bar>audio_calculate_confidence a
            - min (sum_list (map (\<lambda>k. dict_get audio_weight_literals k 0.1) (dict_keys a))) 1\<bar>
           \<le> ((1 + 2 powi (- 53)) ^ Suc (length a) - 1)
              * sum_list (map (\<lambda>k. dict_get audio_weight_literals k 0.1) (dict_keys a))
       \<and> \<bar>video_calculate_confidence a
            - min (sum_list (map (\<lambda>k. dict_get video_weight_literals k 0.1) (dict_keys a))) 1\<bar>
           \<le> ((1 + 2 powi (- 53)) ^ Suc (length a) - 1)
              * sum_list (map (\<lambda>k. dict_get video_weight_literals k 0.1) (dict_keys a))"
proof -
  have same: "audio_calculate_confidence b = audio_calculate_confidence a
            \<and> video_calculate_confidence b = video_calculate_confidence a"
    if "dict_keys b = dict_keys a" for b :: "(string, 'v) pydict"
    using that by (simp add: audio_confidence_fold video_confidence_fold)
  have empty: "audio_calculate_confidence ([] :: (string, 'v) pydict) = 0"
    "video_calculate_confidence ([] :: (string, 'v) pydict) = 0"
    by (simp_all add: audio_calculate_confidence_def video_calculate_confidence_def)
  have len: "length (dict_keys a) = length a" by (simp add: dict_keys_def)
  have ea: "\<bar>fold (\<lambda>k total. dbl_add total (dbl (dict_get audio_weight_literals k 0.1)))
               (dict_keys a) 0
             - (0 + sum_list (map (\<lambda>k. dict_get audio_weight_literals k 0.1) (dict_keys a)))\<bar>
           \<le> ((1 + 2 powi (- 53)) ^ Suc (0 + length (dict_keys a)) - 1)
              * (0 + sum_list (map (\<lambda>k. dict_get audio_weight_literals k 0.1) (dict_keys a)))"
    using less_imp_le [OF audio_literal_pos] by (intro rounded_sum_error) simp_all
  have ev: "\<bar>fold (\<lambda>k total. dbl_add total (dbl (dict_get video_weight_literals k 0.1)))
               (dict_keys a) 0
             - (0 + sum_list (map (\<lambda>k. dict_get video_weight_literals k 0.1) (dict_keys a)))\<bar>
           \<le> ((1 + 2 powi (- 53)) ^ Suc (0 + length (dict_keys a)) - 1)
              * (0 + sum_list (map (\<lambda>k. dict_get video_weight_literals k 0.1) (dict_keys a)))"
    using less_imp_le [OF video_literal_pos] by (intro rounded_sum_error) simp_all
  have ba: "\<bar>audio_calculate_confidence a
            - min (sum_list (map (\<lambda>k. dict_get audio_weight_literals k 0.1) (dict_keys a))) 1\<bar>
           \<le> ((1 + 2 powi (- 53)) ^ Suc (length a) - 1)
              * sum_list (map (\<lambda>k. dict_get audio_weight_literals k 0.1) (dict_keys a))"
    unfolding audio_confidence_fold audio_weights_def dict_get_weights
    using ea min_one_lipschitz
      [of "fold (\<lambda>k total. dbl_add total (dbl (dict_get audio_weight_literals k 0.1)))
             (dict_keys a) 0"
          "sum_list (map (\<lambda>k. dict_get audio_weight_literals k 0.1) (dict_keys a))"]
    by (simp add: len)
  have bv: "\<bar>video_calculate_confidence a
            - min (sum_list (map (\<lambda>k. dict_get video_weight_literals k 0.1) (dict_keys a))) 1\<bar>
           \<le> ((1 + 2 powi (- 53)) ^ Suc (length a) - 1)
              * sum_list (map (\<lambda>k. dict_get video_weight_literals k 0.1) (dict_keys a))"
    unfolding video_confidence_fold video_weights_def dict_get_weights
    using ev min_one_lipschitz
      [of "fold (\<lambda>k total. dbl_add total (dbl (dict_get video_weight_literals k 0.1)))
             (dict_keys a) 0"
          "sum_list (map (\<lambda>k. dict_get video_weight_literals k 0.1) (dict_keys a))"]
    by (simp add: len)
  show ?thesis
    using same empty audio_confidence_range [of a] video_confidence_range [of a] ba bv
      audio_confidence_fold [of a] video_confidence_fold [of a]
    by blast
qed

lemmas dbl_values =
  dbl_quarter dbl_3_20 dbl_fifth dbl_tenth dbl_twentieth
  dbl_sum_5 dbl_sum_6 dbl_sum_7 dbl_sum_8 dbl_sum_9 dbl_sum_10 dbl_sum_11 dbl_sum_12 dbl_sum_13 dbl_sum_14 dbl_sum_15 dbl_sum_16 dbl_sum_17 dbl_sum_18 dbl_sum_19

lemmas confidence_eval =
  audio_calculate_confidence_def video_calculate_confidence_def dict_keys_def dict_get_def
  audio_weights_def video_weights_def audio_weight_literals_def video_weight_literals_def
  dbl_add_def

theorem confidence_is_capped_float_sum_witness:
  "audio_calculate_confidence
     [(''spectral_centroid_anomaly'', True), (''energy_anomaly'', True),
      (''unlisted_anomaly'', True)] = 2476979795053773 / 4503599627370496
   \<and> audio_calculate_confidence
       [(''spectral_centroid_anomaly'', False), (''energy_anomaly'', False),
        (''unlisted_anomaly'', False)] = 2476979795053773 / 4503599627370496
   \<and> video_calculate_confidence
       [(''spectral_centroid_anomaly'', True), (''energy_anomaly'', True),
        (''unlisted_anomaly'', True)] = 1351079888211149 / 4503599627370496"
proof -
  let ?a = "[(''spectral_centroid_anomaly'', True), (''energy_anomaly'', True),
             (''unlisted_anomaly'', True)]"
  let ?b = "[(''spectral_centroid_anomaly'', False), (''energy_anomaly'', False),
             (''unlisted_anomaly'', False)]"
  have k: "dict_keys ?b = dict_keys ?a" by (simp add: dict_keys_def)
  have "audio_calculate_confidence ?b = audio_calculate_confidence ?a"
    using confidence_is_capped_float_sum [of ?a] k by blast
  moreover have "audio_calculate_confidence ?a = 2476979795053773 / 4503599627370496"
    by (simp add: confidence_eval dbl_values)
  moreover have "video_calculate_confidence ?a = 1351079888211149 / 4503599627370496"
    by (simp add: confidence_eval dbl_values)
  ultimately show ?thesis by simp
qed

text \<open>
  C1 as stated has the score equal to the minimum of 1 and the sum of the weights and
  depend only on the set of anomaly names.  The names kurtosis, skewness and zero
  crossing have the weights 0.05, 0.05 and 0.20, whose sum is 0.3.  Inserted in that order
  they score 0.30000000000000004; with zero crossing first they score the double nearest
  to 0.3, which is another number; neither is 3/10.
\<close>

theorem confidence_depends_on_order_counterexample:
  "set (dict_keys [(''kurtosis_anomaly'', True), (''skewness_anomaly'', True),
                   (''zero_crossing_anomaly'', True)])
     = set (dict_keys [(''zero_crossing_anomaly'', True), (''kurtosis_anomaly'', True),
                       (''skewness_anomaly'', True)])
   \<and> audio_calculate_confidence
       [(''kurtosis_anomaly'', True), (''skewness_anomaly'', True),
        (''zero_crossing_anomaly'', True)] = 1351079888211149 / 4503599627370496
   \<and> audio_calculate_confidence
       [(''zero_crossing_anomaly'', True), (''kurtosis_anomaly'', True),
        (''skewness_anomaly'', True)] = 5404319552844595 / 18014398509481984
   \<and> (1351079888211149 / 4503599627370496 :: real) \<noteq> 5404319552844595 / 18014398509481984
   \<and> (1351079888211149 / 4503599627370496 :: real) \<noteq> min 1 (0.05 + 0.05 + 0.20)"
  by (simp add: confidence_eval dbl_values insert_commute)


section \<open>The frame sampler\<close>

lemma dbl_err_quantum:
  assumes "0 < x"
  shows "\<bar>dbl x - x\<bar> \<le> 2 powi (binade x - 53)"
proof -
  let ?q = "(2::real) powi (binade x - 52)"
  have q: "0 < ?q" by simp
  have "dbl x - x = (of_int (round_half_even (x / ?q)) - x / ?q) * ?q"
    using q by (simp add: dbl_pos_form [OF assms] field_simps)
  then have "\<bar>dbl x - x\<bar> = \<bar>of_int (round_half_even (x / ?q)) - x / ?q\<bar> * ?q"
    using q by (simp add: abs_mult)
  also have "\<dots> \<le> 1 / 2 * ?q"
    using rhe_err [of "x / ?q"] q by (intro mult_right_mono) simp_all
  also have "1 / 2 * ?q = 2 powi (binade x - 53)"
    by (simp add: power_int_diff)
  finally show ?thesis .
qed

lemma dbl_up_to_grid:
  assumes x: "0 < x" and le: "x \<le> of_int k * 2 powi c" and c: "binade x - 52 \<le> c"
    and near: "of_int k * 2 powi c - x < 2 powi (binade x - 53)"
  shows "dbl x = of_int k * 2 powi c"
proof -
  let ?q = "(2::real) powi (binade x - 52)"
  let ?K = "k * 2 ^ nat (c - (binade x - 52))"
  have q: "0 < ?q" by simp
  have g: "of_int k * (2::real) powi c = of_int ?K * ?q"
    by (simp add: powi_split [OF c])
  have half: "(2::real) powi (binade x - 53) = ?q / 2"
    by (simp add: power_int_diff)
  have 1: "x / ?q \<le> of_int ?K"
    using le q unfolding g by (simp add: field_simps)
  have "of_int ?K * ?q - x < ?q / 2"
    using near unfolding g half .
  then have "(of_int ?K * ?q - x) / ?q < (?q / 2) / ?q"
    using q by (simp only: divide_strict_right_mono)
  then have 2: "of_int ?K - x / ?q < 1 / 2"
    using q by (simp add: field_simps)
  have "round_half_even (x / ?q) = ?K"
    using 1 2 by (rule rhe_near_above)
  then show ?thesis
    unfolding dbl_pos_form [OF x] g by simp
qed

lemma binade_less:
  assumes "0 < x" "x < 2 powi k"
  shows "binade x < k"
proof -
  have "(2::real) powi (binade x) < 2 powi k"
    using binade_bounds(1) [OF assms(1)] assms(2) by linarith
  then show ?thesis by (rule powi_less_cancel)
qed

lemma floor_dbl_step:
  assumes a: "0 \<le> a" and s: "1 < s" and b: "a + s < 2 ^ 53"
  shows "\<lfloor>dbl a\<rfloor> < \<lfloor>dbl (a + s)\<rfloor>"
proof -
  define j where "j = \<lfloor>dbl a\<rfloor>"
  have pos: "0 < a + s" using a s by linarith
  have c0: "binade (a + s) - 52 \<le> 0"
    using binade_less_53 [OF pos b] by simp
  have next_int: "of_int (j + 1) \<le> dbl (a + s)" if "of_int (j + 1) \<le> a + s"
    using dbl_ge_grid [OF pos _ c0, of "j + 1"] that by simp
  have "of_int (j + 1) \<le> dbl (a + s)"
  proof (cases "of_int j \<le> a")
    case True
    then have "of_int (j + 1) \<le> a + s" using s by simp
    then show ?thesis by (rule next_int)
  next
    case False
    then have aj: "a < of_int j" by simp
    have "a \<noteq> 0"
    proof
      assume "a = 0"
      then have "j = 0" by (simp add: j_def)
      with aj \<open>a = 0\<close> show False by simp
    qed
    with a have apos: "0 < a" by simp
    have a53: "a < 2 ^ 53" using b s by linarith
    have ca: "binade a - 52 \<le> 0"
      using binade_less_53 [OF apos a53] by simp
    have "dbl a \<le> of_int j"
      using dbl_le_grid [OF apos _ ca, of j] aj by simp
    moreover have "of_int j \<le> dbl a"
      unfolding j_def by linarith
    ultimately have da: "dbl a = of_int j" by simp
    have near_a: "of_int j - a \<le> 2 powi (binade a - 53)"
      using dbl_err_quantum [OF apos] da by linarith
    have "binade a \<le> binade (a + s)"
      using s by (intro binade_mono [OF apos]) linarith
    then have "(2::real) powi (binade a - 53) \<le> 2 powi (binade (a + s) - 53)"
      by (intro power_int_increasing) simp_all
    with near_a have near: "of_int j - a \<le> 2 powi (binade (a + s) - 53)" by linarith
    show ?thesis
    proof (cases "of_int (j + 1) \<le> a + s")
      case True
      then show ?thesis by (rule next_int)
    next
      case False
      then have le: "a + s \<le> of_int (j + 1) * 2 powi 0" by simp
      have "of_int (j + 1) * 2 powi 0 - (a + s) < 2 powi (binade (a + s) - 53)"
        using near s by simp
      from dbl_up_to_grid [OF pos le c0 this] show ?thesis by simp
    qed
  qed
  then have "j + 1 \<le> \<lfloor>dbl (a + s)\<rfloor>" by (simp only: le_floor_iff)
  then show ?thesis by (simp add: j_def)
qed


lemma step_gt_one:
  fixes d m :: int
  assumes m: "1 \<le> m" and md: "m < d" and d: "d < 2 ^ 52"
  shows "1 < dbl (of_int d / of_int m)"
proof -
  let ?r = "real_of_int d / real_of_int m"
  have mpos: "0 < real_of_int m" using m by simp
  have "real_of_int m + 1 \<le> real_of_int d" using md by linarith
  then have "(real_of_int m + 1) / real_of_int m \<le> ?r"
    using mpos by (intro divide_right_mono) simp_all
  moreover have "(real_of_int m + 1) / real_of_int m = 1 + 1 / real_of_int m"
    using mpos by (simp add: field_simps)
  ultimately have r1: "1 + 1 / real_of_int m \<le> ?r" by simp
  have "0 < real_of_int d" using m md by simp
  then have rpos: "0 < ?r" using mpos by simp
  have "real_of_int d * 1 \<le> real_of_int d * real_of_int m"
    using m md by (intro mult_left_mono) simp_all
  then have rd: "?r \<le> real_of_int d"
    using mpos by (simp add: field_simps)
  have d': "real_of_int d < 2 ^ 52" using d by simp
  show ?thesis
  proof (cases "?r < 2")
    case True
    then have "binade ?r < 1" using binade_less [OF rpos, of 1] by simp
    then have c: "binade ?r - 52 \<le> - 52" by simp
    have "m < 2 ^ 52" using md d by simp
    then have "real_of_int m < 2 ^ 52" by simp
    then have inv: "1 / 4503599627370496 < 1 / real_of_int m"
      using mpos by (simp add: field_simps)
    have g: "of_int (2 ^ 52 + 1) * (2::real) powi (- 52) = 1 + 1 / 4503599627370496"
      by (simp add: power_int_minus)
    have "of_int (2 ^ 52 + 1) * 2 powi (- 52) \<le> ?r"
      unfolding g using inv r1 by linarith
    from dbl_ge_grid [OF rpos this c] show ?thesis
      by (simp add: power_int_minus)
  next
    case False
    then have ge: "of_int 1 * 2 powi 1 \<le> ?r" by simp
    have "(2::real) ^ 52 < 2 ^ 53" by simp
    then have "?r < 2 ^ 53" using rd d' by linarith
    then have "binade ?r - 52 \<le> 1" using binade_less_53 [OF rpos] by simp
    from dbl_ge_grid [OF rpos ge this] show ?thesis by simp
  qed
qed

lemma step_upper:
  assumes "0 < r"
  shows "dbl r \<le> r * (1 + 2 powi (- 53))"
proof -
  have "\<bar>dbl r - r\<bar> \<le> 2 powi (- 53) * r"
    using dbl_err [of r] assms by simp
  moreover have "r * (1 + 2 powi (- 53)) = r + 2 powi (- 53) * r"
    by (simp only: distrib_left mult_1_right mult.commute)
  ultimately show ?thesis by linarith
qed

lemma prefix_below_last:
  fixes d m :: int
  assumes m: "1 \<le> m" and md: "m < d" and d: "d < 2 ^ 52" and i: "int i < m"
  shows "\<lfloor>dbl (real i * dbl (of_int d / of_int m))\<rfloor> < d"
proof -
  let ?r = "real_of_int d / real_of_int m"
  let ?s = "dbl ?r"
  let ?u = "(2::real) powi (- 53)"
  have mpos: "0 < real_of_int m" using m by simp
  have s1: "1 < ?s" by (rule step_gt_one [OF m md d])
  have rpos: "0 < ?r" using m md by simp
  have r1: "1 \<le> ?r" using m md mpos by (simp add: field_simps)
  have i': "real i \<le> real_of_int m - 1" using i by linarith
  have "real i * ?s \<le> (real_of_int m - 1) * ?s"
    using i' s1 by (intro mult_right_mono) simp_all
  also have "\<dots> \<le> (real_of_int m - 1) * (?r * (1 + ?u))"
    using step_upper [OF rpos] m by (intro mult_left_mono) simp_all
  also have "\<dots> = (real_of_int d - ?r) * (1 + ?u)"
    using mpos by (simp add: field_simps)
  also have "\<dots> \<le> (real_of_int d - 1) * (1 + ?u)"
    using r1 by (intro mult_right_mono) simp_all
  also have "\<dots> = real_of_int d - 1 + (real_of_int d - 1) * ?u"
    by (simp only: distrib_left mult_1_right)
  also have "\<dots> < real_of_int d - 1 + 1 / 2"
  proof -
    have "real_of_int d < 2 ^ 52" using d by simp
    then have "real_of_int d - 1 < 2 ^ 52" by linarith
    then have "(real_of_int d - 1) * ?u < 2 ^ 52 * ?u"
      by (intro mult_strict_right_mono) simp_all
    also have "(2::real) ^ 52 * ?u = 1 / 2" by (simp add: power_int_minus)
    finally show ?thesis by linarith
  qed
  finally have lt: "real i * ?s < real_of_int d - 1 / 2" by linarith
  have "dbl (real i * ?s) \<le> real_of_int d - 1 / 2"
  proof (cases "real i * ?s = 0")
    case True
    then have "dbl (real i * ?s) = 0" by (simp only: dbl_0)
    moreover have "1 \<le> real_of_int d" using m md by simp
    ultimately show ?thesis by linarith
  next
    case False
    then have pos: "0 < real i * ?s" using s1 by (simp add: zero_less_mult_iff)
    have le: "real i * ?s \<le> of_int (2 * d - 1) * 2 powi (- 1)"
      using lt by (simp add: power_int_minus field_simps)
    have "real i * ?s < 2 powi 52" using lt d by simp
    then have "binade (real i * ?s) - 52 \<le> - 1"
      using binade_less [OF pos, of 52] by simp
    from dbl_le_grid [OF pos le this] show ?thesis
      by (simp add: power_int_minus field_simps)
  qed
  then have "dbl (real i * ?s) < real_of_int d" by simp
  then show ?thesis by (simp add: floor_less_iff)
qed

lemma prefix_step:
  fixes d m :: int
  assumes m: "1 \<le> m" and md: "m < d" and d: "d < 2 ^ 52" and i: "int (Suc i) \<le> m"
  shows "\<lfloor>dbl (real i * dbl (of_int d / of_int m))\<rfloor>
       < \<lfloor>dbl (real (Suc i) * dbl (of_int d / of_int m))\<rfloor>"
proof -
  let ?r = "real_of_int d / real_of_int m"
  let ?s = "dbl ?r"
  let ?u = "(2::real) powi (- 53)"
  have mpos: "0 < real_of_int m" using m by simp
  have s1: "1 < ?s" by (rule step_gt_one [OF m md d])
  have rpos: "0 < ?r" using m md by simp
  have i': "real (Suc i) \<le> real_of_int m" using i by linarith
  have "real (Suc i) * ?s \<le> real_of_int m * ?s"
    using i' s1 by (intro mult_right_mono) simp_all
  also have "\<dots> \<le> real_of_int m * (?r * (1 + ?u))"
    using step_upper [OF rpos] m by (intro mult_left_mono) simp_all
  also have "\<dots> = real_of_int d * (1 + ?u)"
    using mpos by simp
  also have "\<dots> \<le> real_of_int d * 2"
    using md m by (intro mult_left_mono) (simp_all add: power_int_minus)
  also have "\<dots> < 2 ^ 53" using d by simp
  finally have b: "real i * ?s + ?s < 2 ^ 53" by (simp add: algebra_simps)
  have a: "0 \<le> real i * ?s" using s1 by simp
  from floor_dbl_step [OF a s1 b] show ?thesis by (simp add: algebra_simps)
qed

lemma strict_chain:
  fixes f :: "nat \<Rightarrow> int"
  assumes "\<And>i. Suc i < k \<Longrightarrow> f i < f (Suc i)"
  shows "i < j \<Longrightarrow> j < k \<Longrightarrow> f i < f j"
proof (induction j)
  case 0
  then show ?case by simp
next
  case (Suc j)
  show ?case
  proof (cases "i = j")
    case True
    then show ?thesis using assms [of j] Suc.prems by simp
  next
    case False
    then have "f i < f j" using Suc by simp
    moreover have "f j < f (Suc j)" using assms [of j] Suc.prems by simp
    ultimately show ?thesis by simp
  qed
qed

lemma position_error:
  fixes d m :: int
  assumes m: "1 \<le> m" and md: "m < d" and d: "d < 2 ^ 52" and i: "int i \<le> m"
  shows "\<bar>dbl (real i * dbl (of_int d / of_int m)) - real i * of_int d / of_int m\<bar>
           \<le> (2 powi (- 52) + 2 powi (- 106)) * (real i * of_int d / of_int m)"
proof -
  let ?r = "real_of_int d / real_of_int m"
  let ?s = "dbl ?r"
  let ?u = "(2::real) powi (- 53)"
  have rpos: "0 < ?r" using m md by simp
  have s0: "0 \<le> ?s" using rpos by (intro dbl_nonneg) simp
  have e1: "\<bar>?s - ?r\<bar> \<le> ?u * ?r" using dbl_err [of ?r] rpos by simp
  have su: "?s \<le> ?r * (1 + ?u)" by (rule step_upper [OF rpos])
  have "\<bar>dbl (real i * ?s) - real i * ?s\<bar> \<le> ?u * (real i * ?s)"
    using dbl_err [of "real i * ?s"] s0 by (simp add: abs_mult)
  also have "\<dots> \<le> ?u * (real i * (?r * (1 + ?u)))"
    using su by (intro mult_left_mono) simp_all
  finally have a: "\<bar>dbl (real i * ?s) - real i * ?s\<bar> \<le> ?u * (1 + ?u) * (real i * ?r)"
    by (simp add: algebra_simps)
  have "\<bar>real i * ?s - real i * ?r\<bar> = \<bar>real i * (?s - ?r)\<bar>"
    by (simp only: right_diff_distrib)
  also have "\<dots> = real i * \<bar>?s - ?r\<bar>"
    by (simp only: abs_mult abs_of_nat)
  also have "\<dots> \<le> real i * (?u * ?r)"
    using e1 by (intro mult_left_mono) simp_all
  finally have b: "\<bar>real i * ?s - real i * ?r\<bar> \<le> ?u * (real i * ?r)"
    by (simp add: algebra_simps)
  have "\<bar>dbl (real i * ?s) - real i * ?r\<bar>
          \<le> ?u * (1 + ?u) * (real i * ?r) + ?u * (real i * ?r)"
    using a b by linarith
  also have "\<dots> = (2 powi (- 52) + 2 powi (- 106)) * (real i * ?r)"
    by (simp add: algebra_simps power_int_minus)
  finally show ?thesis by simp
qed

lemma position_error_small:
  fixes d m :: int
  assumes m: "1 \<le> m" and md: "m < d" and d: "d < 2 ^ 52" and i: "int i \<le> m"
  shows "(2 powi (- 52) + 2 powi (- 106)) * (real i * of_int d / of_int m) < 1"
proof -
  have mpos: "0 < real_of_int m" using m by simp
  have im: "real i \<le> real_of_int m" using i by linarith
  have d0: "0 \<le> real_of_int d" using m md by simp
  have "real i * real_of_int d \<le> real_of_int m * real_of_int d"
    using im d0 by (rule mult_right_mono)
  then have "real i * real_of_int d / real_of_int m \<le> real_of_int d"
    using mpos by (simp add: field_simps)
  also have "\<dots> \<le> 2 ^ 52 - 1"
  proof -
    have "d \<le> 2 ^ 52 - 1" using d by simp
    then have "real_of_int d \<le> real_of_int (2 ^ 52 - 1)" by (simp only: of_int_le_iff)
    then show ?thesis by simp
  qed
  finally have "(2 powi (- 52) + 2 powi (- 106)) * (real i * of_int d / of_int m)
                  \<le> (2 powi (- 52) + 2 powi (- 106)) * (2 ^ 52 - 1)"
    by (intro mult_left_mono) simp_all
  also have "\<dots> < 1" by (simp add: power_int_minus)
  finally show ?thesis .
qed

lemma floor_near:
  fixes y e :: real
  assumes "\<bar>y - e\<bar> < 1"
  shows "\<bar>\<lfloor>y\<rfloor> - \<lfloor>e\<rfloor>\<bar> \<le> 1"
  using assms by linarith

lemma sample_indices_all:
  "frame_count \<le> n \<Longrightarrow> sample_indices n frame_count = Inr (map int [0..<nat frame_count])"
  by (simp add: sample_indices_def py_range_def)

lemma sample_indices_one:
  "1 < frame_count \<Longrightarrow> sample_indices 1 frame_count = Inr [0]"
  by (simp add: sample_indices_def np_linspace_int_def dbl_mul_def dbl_add_def)

lemma linspace_many:
  fixes d m :: int
  assumes m: "1 \<le> m" and md: "m < d" and d: "d < 2 ^ 52"
  shows "np_linspace_int 0 d (m + 1) =
           Inr (map (\<lambda>i. \<lfloor>dbl (real i * dbl (of_int d / of_int m))\<rfloor>) [0..<nat m] @ [d])"
proof -
  let ?s = "dbl (real_of_int d / real_of_int m)"
  have s1: "1 < ?s" by (rule step_gt_one [OF m md d])
  then have s0: "?s \<noteq> 0" by simp
  have dd: "dbl (real_of_int d) = real_of_int d"
    using m md d by (intro dbl_of_int) simp_all
  have sample: "dbl (dbl (real i * ?s)) = dbl (real i * ?s)" for i
    using s1 by (intro dbl_idem) simp
  have nn: "nat (m + 1) = Suc (nat m)" using m by simp
  show ?thesis
    using m s0
    by (simp add: np_linspace_int_def Let_def dbl_div_def dbl_mul_def dbl_add_def
        dd nn sample o_def)
qed

lemma sample_indices_many:
  assumes n: "2 \<le> n" and big: "n < frame_count" and fc: "frame_count \<le> 2 ^ 52"
  shows "sample_indices n frame_count =
           Inr (map (\<lambda>i. \<lfloor>dbl (real i * dbl (of_int (frame_count - 1) / of_int (n - 1)))\<rfloor>)
                  [0..<nat (n - 1)] @ [frame_count - 1])"
proof -
  have "1 \<le> n - 1" "n - 1 < frame_count - 1" "frame_count - 1 < 2 ^ 52"
    using n big fc by simp_all
  from linspace_many [OF this] show ?thesis
    using big by (simp add: sample_indices_def)
qed

text \<open>
  The sampler on 123 frames with the default budget of 15: the step \<open>122 / 14\<close> is
  rounded down, so that seven steps fall just below 61 and index 7 is frame 60.
\<close>

lemma dbl_step_122_14: "dbl (61 / 7) = 4905706736957147 / 562949953421312"
  using dbl_val [of "61 / 7" "3" 4905706736957147]
  by (simp add: power_int_minus)

lemma dbl_pos_1: "dbl (4905706736957147 / 562949953421312) = 4905706736957147 / 562949953421312"
  using dbl_val [of "4905706736957147 / 562949953421312" "3" 4905706736957147]
  by (simp add: power_int_minus)

lemma dbl_pos_2: "dbl (4905706736957147 / 281474976710656) = 4905706736957147 / 281474976710656"
  using dbl_val [of "4905706736957147 / 281474976710656" "4" 4905706736957147]
  by (simp add: power_int_minus)

lemma dbl_pos_3: "dbl (14717120210871441 / 562949953421312) = 919820013179465 / 35184372088832"
  using dbl_tie [of "14717120210871441 / 562949953421312" "4" 7358560105435720]
  by (simp add: power_int_minus)

lemma dbl_pos_4: "dbl (4905706736957147 / 140737488355328) = 4905706736957147 / 140737488355328"
  using dbl_val [of "4905706736957147 / 140737488355328" "5" 4905706736957147]
  by (simp add: power_int_minus)

lemma dbl_pos_5: "dbl (24528533684785735 / 562949953421312) = 3066066710598217 / 70368744177664"
  using dbl_val [of "24528533684785735 / 562949953421312" "5" 6132133421196434]
  by (simp add: power_int_minus)

lemma dbl_pos_6: "dbl (14717120210871441 / 281474976710656) = 919820013179465 / 17592186044416"
  using dbl_tie [of "14717120210871441 / 281474976710656" "5" 7358560105435720]
  by (simp add: power_int_minus)

lemma dbl_pos_7: "dbl (34339947158700029 / 562949953421312) = 8584986789675007 / 140737488355328"
  using dbl_val [of "34339947158700029 / 562949953421312" "5" 8584986789675007]
  by (simp add: power_int_minus)

lemma dbl_pos_8: "dbl (4905706736957147 / 70368744177664) = 4905706736957147 / 70368744177664"
  using dbl_val [of "4905706736957147 / 70368744177664" "6" 4905706736957147]
  by (simp add: power_int_minus)

lemma dbl_pos_9: "dbl (44151360632614323 / 562949953421312) = 2759460039538395 / 35184372088832"
  using dbl_val [of "44151360632614323 / 562949953421312" "6" 5518920079076790]
  by (simp add: power_int_minus)

lemma dbl_pos_10: "dbl (24528533684785735 / 281474976710656) = 3066066710598217 / 35184372088832"
  using dbl_val [of "24528533684785735 / 281474976710656" "6" 6132133421196434]
  by (simp add: power_int_minus)

lemma dbl_pos_11: "dbl (53962774106528617 / 562949953421312) = 6745346763316077 / 70368744177664"
  using dbl_val [of "53962774106528617 / 562949953421312" "6" 6745346763316077]
  by (simp add: power_int_minus)

lemma dbl_pos_12: "dbl (14717120210871441 / 140737488355328) = 919820013179465 / 8796093022208"
  using dbl_tie [of "14717120210871441 / 140737488355328" "6" 7358560105435720]
  by (simp add: power_int_minus)

lemma dbl_pos_13: "dbl (63774187580442911 / 562949953421312) = 1992943361888841 / 17592186044416"
  using dbl_val [of "63774187580442911 / 562949953421312" "6" 7971773447555364]
  by (simp add: power_int_minus)

lemma dbl_2_53_plus_1: "dbl (9007199254740993) = 9007199254740992"
  using dbl_tie [of "9007199254740993" "53" 4503599627370496]
  by (simp add: power_int_minus)

lemma dbl_2_53: "dbl (9007199254740992) = 9007199254740992"
  using dbl_val [of "9007199254740992" "53" 4503599627370496]
  by (simp add: power_int_minus)


lemma sample_indices_15_123:
  "sample_indices 15 123 = Inr [0, 8, 17, 26, 34, 43, 52, 60, 69, 78, 87, 95, 104, 113, 122]"
  using sample_indices_many [of 15 123]
  by (simp add: upt_conv_Cons eval_nat_numeral dbl_step_122_14 dbl_pos_1 dbl_pos_2 dbl_pos_3
      dbl_pos_4 dbl_pos_5 dbl_pos_6 dbl_pos_7 dbl_pos_8 dbl_pos_9 dbl_pos_10 dbl_pos_11
      dbl_pos_12 dbl_pos_13)

text \<open>
  C3 (as amended).  For a frame count \<open>0 \<le> frame_count \<le> 2\<^sup>5\<^sup>2\<close> and a budget
  \<open>n \<ge> 1\<close>: when \<open>frame_count \<le> n\<close> the sampler selects every index
  \<open>0, \<dots>, frame_count - 1\<close>; when \<open>frame_count > n\<close> it selects exactly \<open>n\<close> strictly
  increasing indices starting at 0.  For \<open>n \<ge> 2\<close> the last index is \<open>frame_count - 1\<close>,
  the index at every earlier position \<open>i\<close> is the product of \<open>i\<close> and the rounded step
  \<open>(frame_count - 1) / (n - 1)\<close>, rounded and then rounded down to an integer, and every
  index differs from \<open>i * (frame_count - 1) / (n - 1)\<close> rounded down by at most one.  For
  \<open>n = 1\<close> the only index is 0.  The indices are a function of \<open>(frame_count, n)\<close> alone.
\<close>

theorem frame_sampling_indices:
  assumes "0 \<le> frame_count" "frame_count \<le> 2 ^ 52" "1 \<le> n"
  shows "(frame_count \<le> n \<longrightarrow>
            sample_indices n frame_count = Inr (map int [0..<nat frame_count]))
       \<and> (n < frame_count \<longrightarrow>
            (\<exists>xs. sample_indices n frame_count = Inr xs
                \<and> length xs = nat n
                \<and> sorted_wrt (<) xs
                \<and> hd xs = 0
                \<and> (2 \<le> n \<longrightarrow>
                     last xs = frame_count - 1
                   \<and> (\<forall>i < nat n - 1. xs ! i =
                         \<lfloor>dbl (real i * dbl (of_int (frame_count - 1) / of_int (n - 1)))\<rfloor>)
                   \<and> (\<forall>i < nat n. \<bar>xs ! i -
                         \<lfloor>real i * of_int (frame_count - 1) / of_int (n - 1)\<rfloor>\<bar> \<le> 1))
                \<and> (n = 1 \<longrightarrow> xs = [0])))"
proof (intro conjI impI)
  assume "frame_count \<le> n"
  then show "sample_indices n frame_count = Inr (map int [0..<nat frame_count])"
    by (rule sample_indices_all)
next
  assume big: "n < frame_count"
  show "\<exists>xs. sample_indices n frame_count = Inr xs
                \<and> length xs = nat n
                \<and> sorted_wrt (<) xs
                \<and> hd xs = 0
                \<and> (2 \<le> n \<longrightarrow>
                     last xs = frame_count - 1
                   \<and> (\<forall>i < nat n - 1. xs ! i =
                         \<lfloor>dbl (real i * dbl (of_int (frame_count - 1) / of_int (n - 1)))\<rfloor>)
                   \<and> (\<forall>i < nat n. \<bar>xs ! i -
                         \<lfloor>real i * of_int (frame_count - 1) / of_int (n - 1)\<rfloor>\<bar> \<le> 1))
                \<and> (n = 1 \<longrightarrow> xs = [0])"
  proof (cases "n = 1")
    case True
    with big show ?thesis
      by (intro exI [of _ "[0]"]) (simp add: sample_indices_one)
  next
    case False
    with assms have n2: "2 \<le> n" by simp
    define d where "d = frame_count - 1"
    define m where "m = n - 1"
    define f where "f = (\<lambda>i. \<lfloor>dbl (real i * dbl (of_int d / of_int m))\<rfloor>)"
    define xs where "xs = map f [0..<nat m] @ [d]"
    have m: "1 \<le> m" and md: "m < d" and d: "d < 2 ^ 52"
      using n2 big assms(2) by (simp_all add: d_def m_def)
    have run: "sample_indices n frame_count = Inr xs"
      using sample_indices_many [OF n2 big assms(2)]
      by (simp add: xs_def f_def d_def m_def)
    have len: "length xs = nat n"
      using n2 by (simp add: xs_def m_def)
    have nth_prefix: "xs ! i = f i" if "i < nat m" for i
      using that by (simp add: xs_def nth_append)
    have nth_last: "xs ! nat m = d"
      by (simp add: xs_def nth_append)
    have step: "f i < f (Suc i)" if "Suc i < nat m" for i
      unfolding f_def using that by (intro prefix_step [OF m md d]) linarith
    have below: "f i < d" if "i < nat m" for i
      unfolding f_def using that by (intro prefix_below_last [OF m md d]) linarith
    have incr: "sorted_wrt (<) (map f [0..<nat m])"
      unfolding sorted_wrt_map sorted_wrt_iff_nth_less
      using strict_chain [of "nat m" f, OF step] by simp
    have srt: "sorted_wrt (<) xs"
      unfolding xs_def sorted_wrt_append using incr below by auto
    have "f 0 = 0" by (simp add: f_def)
    then have hd0: "hd xs = 0"
      using m by (simp add: xs_def upt_conv_Cons)
    have lst: "last xs = frame_count - 1"
      by (simp add: xs_def d_def)
    have float_form: "\<forall>i < nat n - 1. xs ! i =
        \<lfloor>dbl (real i * dbl (of_int (frame_count - 1) / of_int (n - 1)))\<rfloor>"
    proof (intro allI impI)
      fix i assume "i < nat n - 1"
      then have "i < nat m" using n2 by (simp add: m_def)
      from nth_prefix [OF this] show "xs ! i =
        \<lfloor>dbl (real i * dbl (of_int (frame_count - 1) / of_int (n - 1)))\<rfloor>"
        by (simp add: f_def d_def m_def)
    qed
    have near: "\<bar>xs ! i - \<lfloor>real i * of_int d / of_int m\<rfloor>\<bar> \<le> 1" if "i < nat n" for i
    proof (cases "i < nat m")
      case True
      then have im: "int i \<le> m" by linarith
      have "\<bar>dbl (real i * dbl (of_int d / of_int m)) - real i * of_int d / of_int m\<bar> < 1"
        using position_error [OF m md d im] position_error_small [OF m md d im]
        by linarith
      then have "\<bar>f i - \<lfloor>real i * of_int d / of_int m\<rfloor>\<bar> \<le> 1"
        unfolding f_def by (rule floor_near)
      then show ?thesis by (simp add: nth_prefix [OF True])
    next
      case False
      with that n2 have i: "i = nat m" by (simp add: m_def)
      have "real (nat m) * real_of_int d / real_of_int m = real_of_int d"
        using m by simp
      then show ?thesis by (simp add: i nth_last)
    qed
    have even_spaced: "\<forall>i < nat n. \<bar>xs ! i -
        \<lfloor>real i * of_int (frame_count - 1) / of_int (n - 1)\<rfloor>\<bar> \<le> 1"
      using near by (simp add: d_def m_def)
    show ?thesis
      using run len srt hd0 lst float_form even_spaced False
      by (intro exI [of _ xs]) simp
  qed
qed

text \<open>
  C3 as stated asks for the indices to run from 0 to \<open>frame_count - 1\<close> inclusive for
  every budget \<open>n \<ge> 1\<close> and every frame count.  With five frames and a budget of one,
  \<open>np.linspace(0, 4, 1)\<close> is the single sample 0: the last frame index 4 is not selected.
  With \<open>2\<^sup>5\<^sup>3 + 2\<close> frames and a budget of two, the end point \<open>2\<^sup>5\<^sup>3 + 1\<close> is not a
  double; it is stored as \<open>2\<^sup>5\<^sup>3\<close>, and the last frame is not selected either.
\<close>

theorem frame_sampling_single_sample_counterexample:
  "sample_indices 1 5 = Inr [0] \<and> (5 - 1 :: int) \<notin> set [0]
   \<and> sample_indices 2 9007199254740994 = Inr [0, 9007199254740992]
   \<and> (9007199254740994 - 1 :: int) \<notin> set [0, 9007199254740992]"
  by (simp add: sample_indices_def np_linspace_int_def dbl_mul_def dbl_add_def dbl_div_def
      dbl_2_53_plus_1 dbl_2_53 eval_nat_numeral)

theorem frame_sampling_indices_witness:
  "(0::int) \<le> 10 \<and> (10::int) \<le> 2 ^ 52 \<and> (1::int) \<le> 4 \<and> (4::int) < 10
   \<and> sample_indices 4 10 = Inr [0, 3, 6, 9]
   \<and> sample_indices 4 3 = Inr [0, 1, 2]"
proof -
  have a: "sample_indices 4 3 = Inr (map int [0..<nat 3])"
    using frame_sampling_indices [of 3 4] by simp
  obtain xs where xs: "sample_indices 4 10 = Inr xs" "length xs = nat 4"
    "last xs = 10 - 1"
    "\<forall>i < nat 4 - 1. xs ! i = \<lfloor>dbl (real i * dbl (of_int (10 - 1) / of_int (4 - 1)))\<rfloor>"
    using frame_sampling_indices [of 10 4] by auto
  have 3: "dbl 3 = 3" using dbl_of_int [of 3] by simp
  have 6: "dbl 6 = 6" using dbl_of_int [of 6] by simp
  obtain x0 x1 x2 x3 where sh: "xs = [x0, x1, x2, x3]"
    using xs(2) by (auto simp: eval_nat_numeral length_Suc_conv)
  have "x0 = 0" "x1 = 3" "x2 = 6"
    using xs(4) [rule_format, of 0] xs(4) [rule_format, of 1] xs(4) [rule_format, of 2]
    by (simp_all add: sh 3 6)
  moreover have "x3 = 9" using xs(3) by (simp add: sh)
  ultimately have "xs = [0, 3, 6, 9]" using sh by simp
  with xs(1) a show ?thesis by (simp add: upt_conv_Cons)
qed


section \<open>The statistical extractor\<close>

text \<open>
  C4.  The claim is that the statistical extractor returns an anomaly set holding
  \<open>kurtosis_anomaly\<close> exactly when \<open>|kurtosis| < 1.0\<close> and \<open>skewness_anomaly\<close>
  exactly when \<open>|skewness| > 2.0\<close>.  The source asks \<open>scipy.stats\<close> for \<open>skewness\<close>,
  a name the library does not have (its function is \<open>skew\<close>): for every sample buffer
  the extractor raises \<open>AttributeError\<close> after the kurtosis test and returns nothing.
\<close>

theorem statistical_extractor_raises:
  "analyze_statistical_features (Some (scipy_stats kurtosis_fn skew_fn)) y = Inl AttributeError"
  by (simp add: analyze_statistical_features_def scipy_stats_def Let_def)

section \<open>Properties of dictionaries\<close>

lemma map_of_dict_set: "map_of (dict_set d k v) = (map_of d)(k \<mapsto> v)"
  by (induction d) (auto simp: fun_eq_iff)

lemma keys_dom: "set (dict_keys d) = dom (map_of d)"
  by (simp add: dict_keys_def dom_map_of_conv_image_fst)

lemma keys_dict_set: "set (dict_keys (dict_set d k v)) = insert k (set (dict_keys d))"
  by (simp add: keys_dom map_of_dict_set)

lemma distinct_dict_set:
  "distinct (dict_keys d) \<Longrightarrow> distinct (dict_keys (dict_set d k v))"
proof (induction d)
  case Nil
  then show ?case by (simp add: dict_keys_def)
next
  case (Cons kv d)
  have "set (map fst (dict_set d k v)) = insert k (set (map fst d))"
    using keys_dict_set [of d k v] by (simp add: dict_keys_def)
  with Cons show ?case
    by (cases kv) (auto simp: dict_keys_def)
qed

lemma dict_update_Cons:
  "dict_update d ((k, v) # e) = dict_update (dict_set d k v) e"
  by (simp add: dict_update_def)

lemma keys_dict_update:
  "set (dict_keys (dict_update d e)) = set (dict_keys d) \<union> set (dict_keys e)"
proof (induction e arbitrary: d)
  case Nil
  then show ?case by (simp add: dict_update_def dict_keys_def)
next
  case (Cons kv e)
  obtain k v where kv: "kv = (k, v)" by (cases kv)
  have "set (dict_keys (kv # e)) = insert k (set (dict_keys e))"
    by (simp add: dict_keys_def kv)
  then show ?case
    using Cons.IH [of "dict_set d k v"] by (simp add: kv dict_update_Cons keys_dict_set)
qed

lemma distinct_dict_update:
  "distinct (dict_keys d) \<Longrightarrow> distinct (dict_keys (dict_update d e))"
proof (induction e arbitrary: d)
  case Nil
  then show ?case by (simp add: dict_update_def)
next
  case (Cons kv e)
  then show ?case
    by (cases kv) (simp add: dict_update_Cons distinct_dict_set)
qed

lemma map_of_dict_update:
  "distinct (dict_keys e) \<Longrightarrow> map_of (dict_update d e) = map_of d ++ map_of e"
proof (induction e arbitrary: d)
  case Nil
  then show ?case by (simp add: dict_update_def)
next
  case (Cons kv e)
  obtain k v where kv: "kv = (k, v)" by (cases kv)
  have notin: "k \<notin> dom (map_of e)" and de: "distinct (dict_keys e)"
    using Cons.prems by (auto simp: dict_keys_def kv dom_map_of_conv_image_fst)
  have "map_of (dict_update d (kv # e)) = map_of (dict_set d k v) ++ map_of e"
    using Cons.IH [OF de, of "dict_set d k v"] by (simp only: kv dict_update_Cons)
  also have "\<dots> = (map_of d)(k \<mapsto> v) ++ map_of e"
    by (simp only: map_of_dict_set)
  also have "\<dots> = map_of d ++ map_of (kv # e)"
    using notin by (auto simp: fun_eq_iff map_add_def kv split: option.splits)
  finally show ?case .
qed

section \<open>Properties of the extractors\<close>

lemma spectral_keys:
  "set (dict_keys (analyze_spectral_features lib y sr))
     \<subseteq> {''spectral_centroid_anomaly'', ''spectral_rolloff_anomaly'', ''zero_crossing_anomaly''}"
  by (auto simp: analyze_spectral_features_def Let_def dict_keys_def)

lemma spectral_distinct: "distinct (dict_keys (analyze_spectral_features lib y sr))"
  by (auto simp: analyze_spectral_features_def Let_def dict_keys_def)

lemma temporal_keys:
  "set (dict_keys (analyze_temporal_features lib y sr))
     \<subseteq> {''energy_anomaly'', ''onset_pattern_anomaly''}"
  by (auto simp: analyze_temporal_features_def Let_def dict_keys_def)

lemma temporal_distinct: "distinct (dict_keys (analyze_temporal_features lib y sr))"
  by (auto simp: analyze_temporal_features_def Let_def dict_keys_def)

lemma statistical_keys:
  "analyze_statistical_features m y = Inr st \<Longrightarrow>
   set (dict_keys st) \<subseteq> {''kurtosis_anomaly'', ''skewness_anomaly''} \<and> distinct (dict_keys st)"
  by (auto simp: analyze_statistical_features_def Let_def dict_keys_def
           split: option.splits if_splits)

lemma quality_keys:
  "set (dict_keys (analyze_frame_quality np cv frames))
     \<subseteq> {''sharpness_anomaly'', ''low_sharpness_anomaly''}"
  by (auto simp: analyze_frame_quality_def Let_def dict_keys_def)

lemma quality_distinct: "distinct (dict_keys (analyze_frame_quality np cv frames))"
  by (auto simp: analyze_frame_quality_def Let_def dict_keys_def)

lemma consistency_keys:
  "set (dict_keys (analyze_temporal_consistency np cv frames))
     \<subseteq> {''temporal_consistency_anomaly'', ''temporal_jump_anomaly''}"
  by (auto simp: analyze_temporal_consistency_def Let_def dict_keys_def)

lemma consistency_distinct:
  "distinct (dict_keys (analyze_temporal_consistency np cv frames))"
  by (auto simp: analyze_temporal_consistency_def Let_def dict_keys_def)

lemma color_keys:
  "set (dict_keys (analyze_color_distribution np frames))
     \<subseteq> {''color_distribution_anomaly'', ''color_balance_anomaly''}"
  by (auto simp: analyze_color_distribution_def Let_def dict_keys_def)

lemma color_distinct: "distinct (dict_keys (analyze_color_distribution np frames))"
  by (auto simp: analyze_color_distribution_def Let_def dict_keys_def)

lemma edges_keys:
  "set (dict_keys (analyze_edges np cv frames))
     \<subseteq> {''edge_consistency_anomaly'', ''low_edge_density_anomaly''}"
  by (auto simp: analyze_edges_def Let_def dict_keys_def)

lemma edges_distinct: "distinct (dict_keys (analyze_edges np cv frames))"
  by (auto simp: analyze_edges_def Let_def dict_keys_def)

text \<open>What a returned result is made of.\<close>

lemma audio_analyze_Inr:
  assumes "fst (AudioAnalyzer_analyze fs g a p) = Inr r"
  shows "\<exists>lib y sr st.
           librosa g = Some lib \<and> load lib p = Some (y, sr)
         \<and> analyze_statistical_features (scipy_stats_global g) y = Inr st
         \<and> r = audio_assemble (path_str fs p) (analyze_spectral_features lib y sr)
                  (analyze_temporal_features lib y sr) st"
  using assms
  by (auto simp: AudioAnalyzer_analyze_def Let_def split: if_splits option.splits sum.splits)

lemma video_analyze_Inr:
  assumes "fst (VideoAnalyzer_analyze fs np g v p) = Inr r"
  shows "\<exists>cv frames.
           cv2 g = Some cv
         \<and> r = video_assemble (path_str fs p) (analyze_frame_quality np cv frames)
                  (analyze_temporal_consistency np cv frames)
                  (analyze_color_distribution np frames) (analyze_edges np cv frames)"
  using assms
  by (auto simp: VideoAnalyzer_analyze_def Let_def split: if_splits option.splits sum.splits)

text \<open>The example environment, evaluated.\<close>

lemma np_mean_const2: "np_mean [Fl a, Fl a] = Fl a"
  by (simp add: np_mean_def)

lemma np_mean_const3: "np_mean [Fl a, Fl a, Fl a] = Fl a"
  by (simp add: np_mean_def)

lemma np_std_const2: "np_std [Fl a, Fl a] = Fl 0"
  by (simp add: np_std_def np_mean_def)

lemma np_std_const3: "np_std [Fl a, Fl a, Fl a] = Fl 0"
  by (simp add: np_std_def np_mean_def)

lemma np_std_0_400: "np_std [Fl 0, Fl 400] = Fl 200"
proof -
  have "sqrt 40000 = sqrt (200\<^sup>2)" by simp
  also have "\<dots> = 200" by (simp only: real_sqrt_abs) 
  finally show ?thesis by (simp add: np_std_def np_mean_def)
qed

lemma lower_MP4: "lower ''.MP4'' = ''.mp4''"
  by (simp add: lower_def lower_char_def)

lemma lower_wav: "lower ''.wav'' = ''.wav''"
  by (simp add: lower_def lower_char_def)

lemma lower_xyz: "lower ''.xyz'' = ''.xyz''"
  by (simp add: lower_def lower_char_def)

lemma example_frames:
  "VideoAnalyzer_sample_frames example_cv2 \<lparr>verbose = False, sample_frames = 30\<rparr>
     ''clip.MP4'' 3 = Inr [0, 10, 20]"
  by (simp add: VideoAnalyzer_sample_frames_def sample_indices_def py_range_def
        example_cv2_def List.map_filter_def upt_conv_Cons eval_nat_numeral)

lemma example_quality:
  "analyze_frame_quality example_numpy example_cv2 [0, 10, 20] =
     [(''sharpness_anomaly'',
       [(''detected'', PBool True), (''mean'', PFloat (Fl 80)), (''std'', PFloat (Fl 0)),
        (''reason'', PStr ''Unnaturally consistent sharpness across frames'')])]"
  by (simp add: analyze_frame_quality_def example_numpy_def example_cv2_def Let_def
        np_mean_const3 np_std_const3)

lemma example_consistency:
  "analyze_temporal_consistency example_numpy example_cv2 [0, 10, 20] =
     [(''temporal_consistency_anomaly'',
       [(''detected'', PBool True), (''mean_diff'', PFloat (Fl 10)),
        (''std_diff'', PFloat (Fl 0)),
        (''reason'', PStr ''Suspiciously consistent temporal changes'')])]"
  by (simp add: analyze_temporal_consistency_def example_numpy_def example_cv2_def Let_def
        np_mean_const2 np_std_const2 np_max_def upt_conv_Cons eval_nat_numeral)

lemma example_color:
  "analyze_color_distribution example_numpy [0, 10, 20] =
     [(''color_distribution_anomaly'',
       [(''detected'', PBool True), (''mean'', PFloat (Fl 10)), (''std'', PFloat (Fl 0)),
        (''reason'', PStr ''Unnaturally low color variation'')])]"
  by (simp add: analyze_color_distribution_def example_numpy_def Let_def
        np_mean_const3 np_std_const3 np_mean_def upt_conv_Cons eval_nat_numeral)

lemma example_edges:
  "analyze_edges example_numpy example_cv2 [0, 10, 20] =
     [(''edge_consistency_anomaly'',
       [(''detected'', PBool True), (''mean_density'', PFloat (Fl 0)),
        (''std_density'', PFloat (Fl 0)),
        (''reason'', PStr ''Suspiciously consistent edge patterns'')]),
      (''low_edge_density_anomaly'',
       [(''detected'', PBool True), (''mean_density'', PFloat (Fl 0)),
        (''reason'', PStr ''Unusually low edge density'')])]"
  by (simp add: analyze_edges_def example_numpy_def example_cv2_def Let_def
        np_mean_const3 np_std_const3)

lemma example_video_analysis:
  "VideoAnalyzer_analyze example_pathlib example_numpy example_video_module
     \<lparr>verbose = False, sample_frames = 30\<rparr> ''clip.MP4'' =
   (Inr (video_assemble ''clip.MP4''
           (analyze_frame_quality example_numpy example_cv2 [0, 10, 20])
           (analyze_temporal_consistency example_numpy example_cv2 [0, 10, 20])
           (analyze_color_distribution example_numpy [0, 10, 20])
           (analyze_edges example_numpy example_cv2 [0, 10, 20])),
    [OpenVideo ''clip.MP4'', ReleaseVideo])"
proof -
  have frames: "VideoAnalyzer_sample_frames example_cv2 \<lparr>verbose = False, sample_frames = 30\<rparr>
                  (VideoCapture example_cv2 ''clip.MP4'')
                  (cap_frame_count example_cv2 (VideoCapture example_cv2 ''clip.MP4''))
                = Inr [0, 10, 20]"
    using example_frames by (simp add: example_cv2_def)
  have ok: "path_exists example_pathlib ''clip.MP4''"
    "VideoAnalyzer_supports_file example_pathlib ''clip.MP4''"
    "isOpened example_cv2 (VideoCapture example_cv2 ''clip.MP4'')"
    "path_str example_pathlib ''clip.MP4'' = ''clip.MP4''"
    by (simp_all add: example_pathlib_def VideoAnalyzer_supports_file_def lower_MP4
          video_SUPPORTED_FORMATS_def example_cv2_def)
  show ?thesis
    unfolding VideoAnalyzer_analyze_def
    by (simp add: ok frames example_video_module_def Let_def)
qed

lemma example_video_result:
  "video_assemble ''clip.MP4''
     (analyze_frame_quality example_numpy example_cv2 [0, 10, 20])
     (analyze_temporal_consistency example_numpy example_cv2 [0, 10, 20])
     (analyze_color_distribution example_numpy [0, 10, 20])
     (analyze_edges example_numpy example_cv2 [0, 10, 20]) =
   \<lparr>file_path = ''clip.MP4'',
    file_type = ''video'',
    is_likely_ai_generated = True,
    confidence_score = 2927339757790823 / 4503599627370496,
    anomalies_detected =
      analyze_frame_quality example_numpy example_cv2 [0, 10, 20]
      @ analyze_temporal_consistency example_numpy example_cv2 [0, 10, 20]
      @ analyze_color_distribution example_numpy [0, 10, 20]
      @ analyze_edges example_numpy example_cv2 [0, 10, 20],
    analysis_details =
      [(''quality'', analyze_frame_quality example_numpy example_cv2 [0, 10, 20]),
       (''temporal'', analyze_temporal_consistency example_numpy example_cv2 [0, 10, 20]),
       (''color'', analyze_color_distribution example_numpy [0, 10, 20]),
       (''edges'', analyze_edges example_numpy example_cv2 [0, 10, 20])]\<rparr>"
  by (simp add: example_quality example_consistency example_color example_edges
        video_assemble_def Let_def dict_update_def confidence_eval dbl_values)


section \<open>The spectral extractor\<close>

text \<open>
  C6.  The spectral extractor's output contains \<open>spectral_centroid_anomaly\<close> exactly
  when the standard deviation of the spectral centroid is below 500 or above 5000; when
  the entry is present its \<open>reason\<close> field is "Unusual spectral centroid distribution";
  in particular a standard deviation of 200 triggers it.
\<close>

theorem spectral_centroid_rule:
  "(''spectral_centroid_anomaly'' \<in> set (dict_keys (analyze_spectral_features lib y sr))
      \<longleftrightarrow> flt (np_std (spectral_centroid lib y sr)) (Fl 500)
        \<or> fgt (np_std (spectral_centroid lib y sr)) (Fl 5000))
   \<and> (\<forall>a. map_of (analyze_spectral_features lib y sr) ''spectral_centroid_anomaly'' = Some a
          \<longrightarrow> map_of a ''reason'' = Some (PStr ''Unusual spectral centroid distribution''))
   \<and> (np_std (spectral_centroid lib y sr) = Fl 200
          \<longrightarrow> ''spectral_centroid_anomaly''
                \<in> set (dict_keys (analyze_spectral_features lib y sr)))"
proof -
  have m: "map_of (analyze_spectral_features lib y sr) ''spectral_centroid_anomaly'' =
     (if flt (np_std (spectral_centroid lib y sr)) (Fl 500)
         \<or> fgt (np_std (spectral_centroid lib y sr)) (Fl 5000)
      then Some [(''detected'', PBool True),
                 (''mean'', PFloat (np_mean (spectral_centroid lib y sr))),
                 (''std'', PFloat (np_std (spectral_centroid lib y sr))),
                 (''reason'', PStr ''Unusual spectral centroid distribution'')]
      else None)"
    by (simp add: analyze_spectral_features_def Let_def)
  have k: "''spectral_centroid_anomaly'' \<in> set (dict_keys (analyze_spectral_features lib y sr))
      \<longleftrightarrow> flt (np_std (spectral_centroid lib y sr)) (Fl 500)
        \<or> fgt (np_std (spectral_centroid lib y sr)) (Fl 5000)"
    unfolding keys_dom by (simp add: m domIff)
  have r: "\<forall>a. map_of (analyze_spectral_features lib y sr) ''spectral_centroid_anomaly'' = Some a
          \<longrightarrow> map_of a ''reason'' = Some (PStr ''Unusual spectral centroid distribution'')"
    by (auto simp: m split: if_splits)
  have "np_std (spectral_centroid lib y sr) = Fl 200
          \<longrightarrow> ''spectral_centroid_anomaly''
                \<in> set (dict_keys (analyze_spectral_features lib y sr))"
    by (simp add: k)
  with k r show ?thesis by blast
qed

theorem spectral_centroid_rule_witness:
  "np_std (spectral_centroid example_librosa [Fl 0, Fl 1] 8000) = Fl 200
   \<and> ''spectral_centroid_anomaly''
        \<in> set (dict_keys (analyze_spectral_features example_librosa [Fl 0, Fl 1] 8000))
   \<and> map_of (analyze_spectral_features example_librosa [Fl 0, Fl 1] 8000)
        ''spectral_centroid_anomaly''
      = Some [(''detected'', PBool True), (''mean'', PFloat (Fl 200)),
              (''std'', PFloat (Fl 200)),
              (''reason'', PStr ''Unusual spectral centroid distribution'')]"
proof -
  have s: "np_std (spectral_centroid example_librosa [Fl 0, Fl 1] 8000) = Fl 200"
    by (simp add: example_librosa_def np_std_0_400)
  have mn: "np_mean (spectral_centroid example_librosa [Fl 0, Fl 1] 8000) = Fl 200"
    by (simp add: example_librosa_def np_mean_def)
  have k: "''spectral_centroid_anomaly''
        \<in> set (dict_keys (analyze_spectral_features example_librosa [Fl 0, Fl 1] 8000))"
    using spectral_centroid_rule [of example_librosa "[Fl 0, Fl 1]" 8000] s by blast
  then obtain a where a: "map_of (analyze_spectral_features example_librosa [Fl 0, Fl 1] 8000)
        ''spectral_centroid_anomaly'' = Some a"
    unfolding keys_dom by blast
  have "map_of (analyze_spectral_features example_librosa [Fl 0, Fl 1] 8000)
        ''spectral_centroid_anomaly''
      = Some [(''detected'', PBool True), (''mean'', PFloat (Fl 200)),
              (''std'', PFloat (Fl 200)),
              (''reason'', PStr ''Unusual spectral centroid distribution'')]"
    using s mn by (simp add: analyze_spectral_features_def Let_def)
  with s k show ?thesis by simp
qed

section \<open>The returned result\<close>

text \<open>
  With the namespace of \<open>scipy.stats\<close> as the library has it, the audio pipeline never
  gets past the statistical extractor: no audio analysis returns a result.
\<close>

lemma audio_analysis_with_scipy_returns_nothing:
  "fst (AudioAnalyzer_analyze fs
          (audio_module_import l (Some (scipy_stats kurtosis_fn skew_fn))) a p) \<noteq> Inr r"
  by (auto simp: AudioAnalyzer_analyze_def audio_module_import_def Let_def
        analyze_statistical_features_def scipy_stats_def
        split: option.splits if_splits)

text \<open>
  C2.  Every result returned by an audio or a video \<open>analyze\<close> call has
  \<open>is_likely_ai_generated\<close> true exactly when \<open>confidence_score > 0.5\<close>.
\<close>

theorem flag_iff_score_above_half:
  assumes "fst (AudioAnalyzer_analyze fs g a p) = Inr r
         \<or> fst (VideoAnalyzer_analyze fs np gv v p) = Inr r"
  shows "is_likely_ai_generated r \<longleftrightarrow> confidence_score r > 0.5"
  using assms
proof
  assume "fst (AudioAnalyzer_analyze fs g a p) = Inr r"
  then obtain s t st where "r = audio_assemble (path_str fs p) s t st"
    using audio_analyze_Inr by blast
  then show ?thesis by (simp add: audio_assemble_def Let_def)
next
  assume "fst (VideoAnalyzer_analyze fs np gv v p) = Inr r"
  then obtain q t c e where "r = video_assemble (path_str fs p) q t c e"
    using video_analyze_Inr by blast
  then show ?thesis by (simp add: video_assemble_def Let_def)
qed

theorem flag_iff_score_above_half_witness:
  "fst (VideoAnalyzer_analyze example_pathlib example_numpy
          example_video_module
          \<lparr>verbose = False, sample_frames = 30\<rparr> ''clip.MP4'')
     = Inr (video_assemble ''clip.MP4''
           (analyze_frame_quality example_numpy example_cv2 [0, 10, 20])
           (analyze_temporal_consistency example_numpy example_cv2 [0, 10, 20])
           (analyze_color_distribution example_numpy [0, 10, 20])
           (analyze_edges example_numpy example_cv2 [0, 10, 20]))
   \<and> confidence_score (video_assemble ''clip.MP4''
           (analyze_frame_quality example_numpy example_cv2 [0, 10, 20])
           (analyze_temporal_consistency example_numpy example_cv2 [0, 10, 20])
           (analyze_color_distribution example_numpy [0, 10, 20])
           (analyze_edges example_numpy example_cv2 [0, 10, 20]))
      = 2927339757790823 / 4503599627370496
   \<and> is_likely_ai_generated (video_assemble ''clip.MP4''
           (analyze_frame_quality example_numpy example_cv2 [0, 10, 20])
           (analyze_temporal_consistency example_numpy example_cv2 [0, 10, 20])
           (analyze_color_distribution example_numpy [0, 10, 20])
           (analyze_edges example_numpy example_cv2 [0, 10, 20]))"
proof -
  let ?r = "video_assemble ''clip.MP4''
           (analyze_frame_quality example_numpy example_cv2 [0, 10, 20])
           (analyze_temporal_consistency example_numpy example_cv2 [0, 10, 20])
           (analyze_color_distribution example_numpy [0, 10, 20])
           (analyze_edges example_numpy example_cv2 [0, 10, 20])"
  have run: "fst (VideoAnalyzer_analyze example_pathlib example_numpy
          example_video_module
          \<lparr>verbose = False, sample_frames = 30\<rparr> ''clip.MP4'') = Inr ?r"
    by (simp add: example_video_analysis)
  have score: "confidence_score ?r = 2927339757790823 / 4503599627370496"
    by (simp add: example_video_result)
  have "is_likely_ai_generated ?r \<longleftrightarrow> confidence_score ?r > 0.5"
    using flag_iff_score_above_half [where r = ?r, OF disjI2, OF run] .
  with run score show ?thesis by simp
qed

section \<open>Rejections before any decoding\<close>

lemma formats_disjoint: "audio_SUPPORTED_FORMATS \<inter> video_SUPPORTED_FORMATS = {}"
  by (simp add: audio_SUPPORTED_FORMATS_def video_SUPPORTED_FORMATS_def)

text \<open>
  C5.  The dispatching \<open>analyze\<close> raises \<open>FileNotFoundError\<close> for a path that does
  not exist, and \<open>ValueError\<close> for an existing path whose lower-cased suffix is in
  neither set of supported formats.  In both cases the dispatcher object is unchanged (no
  modality analyzer was built or chosen), no load or open was attempted, and no result is
  returned.
\<close>

theorem dispatcher_rejects_before_dispatch:
  "(\<not> path_exists fs p \<longrightarrow>
      DeepfakeAnalyzer_analyze fs np ga gv self p = (Inl FileNotFoundError, self, []))
   \<and> (path_exists fs p
        \<and> lower (path_suffix fs p) \<notin> audio_SUPPORTED_FORMATS \<union> video_SUPPORTED_FORMATS \<longrightarrow>
      DeepfakeAnalyzer_analyze fs np ga gv self p = (Inl ValueError, self, []))"
  by (simp add: DeepfakeAnalyzer_analyze_def Let_def)

theorem dispatcher_rejects_before_dispatch_witness:
  "\<not> path_exists example_pathlib ''gone.mp3''
   \<and> DeepfakeAnalyzer_analyze example_pathlib example_numpy
        (audio_module_import (Some example_librosa) None)
        example_video_module
        (DeepfakeAnalyzer_init False) ''gone.mp3''
      = (Inl FileNotFoundError, DeepfakeAnalyzer_init False, [])
   \<and> path_exists example_pathlib ''notes.xyz''
   \<and> lower (path_suffix example_pathlib ''notes.xyz'')
        \<notin> audio_SUPPORTED_FORMATS \<union> video_SUPPORTED_FORMATS
   \<and> DeepfakeAnalyzer_analyze example_pathlib example_numpy
        (audio_module_import (Some example_librosa) None)
        example_video_module
        (DeepfakeAnalyzer_init False) ''notes.xyz''
      = (Inl ValueError, DeepfakeAnalyzer_init False, [])"
proof -
  have a: "\<not> path_exists example_pathlib ''gone.mp3''"
    by (simp add: example_pathlib_def)
  have b: "path_exists example_pathlib ''notes.xyz''"
    by (simp add: example_pathlib_def)
  have c: "lower (path_suffix example_pathlib ''notes.xyz'')
             \<notin> audio_SUPPORTED_FORMATS \<union> video_SUPPORTED_FORMATS"
    by (simp add: example_pathlib_def lower_xyz audio_SUPPORTED_FORMATS_def
          video_SUPPORTED_FORMATS_def)
  show ?thesis
    using a b c
      dispatcher_rejects_before_dispatch [of example_pathlib "''gone.mp3''" example_numpy
        "audio_module_import (Some example_librosa) None"
        example_video_module "DeepfakeAnalyzer_init False"]
      dispatcher_rejects_before_dispatch [of example_pathlib "''notes.xyz''" example_numpy
        "audio_module_import (Some example_librosa) None"
        example_video_module "DeepfakeAnalyzer_init False"]
    by blast
qed

text \<open>
  C10.  Each modality analyzer checks the extension itself: on an existing path whose
  lower-cased suffix is outside its own supported set it raises \<open>ValueError\<close> before
  any load or open.  So the audio analyzer rejects a file with a video suffix, which the
  dispatcher hands to the video analyzer, and the other way round.
\<close>

theorem modality_analyzers_revalidate_extension:
  "(path_exists fs p \<and> lower (path_suffix fs p) \<notin> audio_SUPPORTED_FORMATS \<longrightarrow>
      AudioAnalyzer_analyze fs ga a p = (Inl ValueError, []))
   \<and> (path_exists fs p \<and> lower (path_suffix fs p) \<notin> video_SUPPORTED_FORMATS \<longrightarrow>
      VideoAnalyzer_analyze fs np gv v p = (Inl ValueError, []))
   \<and> (path_exists fs p \<and> lower (path_suffix fs p) \<in> video_SUPPORTED_FORMATS \<longrightarrow>
      AudioAnalyzer_analyze fs ga a p = (Inl ValueError, [])
      \<and> (\<forall>v' self'. get_video_analyzer gv self = Inr (v', self') \<longrightarrow>
            DeepfakeAnalyzer_analyze fs np ga gv self p =
              (fst (VideoAnalyzer_analyze fs np gv v' p), self',
               snd (VideoAnalyzer_analyze fs np gv v' p))))
   \<and> (path_exists fs p \<and> lower (path_suffix fs p) \<in> audio_SUPPORTED_FORMATS \<longrightarrow>
      VideoAnalyzer_analyze fs np gv v p = (Inl ValueError, [])
      \<and> (\<forall>a' self'. get_audio_analyzer ga self = Inr (a', self') \<longrightarrow>
            DeepfakeAnalyzer_analyze fs np ga gv self p =
              (fst (AudioAnalyzer_analyze fs ga a' p), self',
               snd (AudioAnalyzer_analyze fs ga a' p))))"
proof -
  have au: "AudioAnalyzer_analyze fs ga a p = (Inl ValueError, [])"
    if "path_exists fs p" "lower (path_suffix fs p) \<notin> audio_SUPPORTED_FORMATS"
    using that by (simp add: AudioAnalyzer_analyze_def AudioAnalyzer_supports_file_def)
  have vi: "VideoAnalyzer_analyze fs np gv v p = (Inl ValueError, [])"
    if "path_exists fs p" "lower (path_suffix fs p) \<notin> video_SUPPORTED_FORMATS"
    using that by (simp add: VideoAnalyzer_analyze_def VideoAnalyzer_supports_file_def)
  have dv: "DeepfakeAnalyzer_analyze fs np ga gv self p =
              (fst (VideoAnalyzer_analyze fs np gv v' p), self',
               snd (VideoAnalyzer_analyze fs np gv v' p))"
    if "path_exists fs p" "lower (path_suffix fs p) \<in> video_SUPPORTED_FORMATS"
      "get_video_analyzer gv self = Inr (v', self')" for v' self'
  proof -
    have "lower (path_suffix fs p) \<notin> audio_SUPPORTED_FORMATS"
      using that(2) formats_disjoint by blast
    then show ?thesis
      using that by (simp add: DeepfakeAnalyzer_analyze_def Let_def split: prod.splits)
  qed
  have da: "DeepfakeAnalyzer_analyze fs np ga gv self p =
              (fst (AudioAnalyzer_analyze fs ga a' p), self',
               snd (AudioAnalyzer_analyze fs ga a' p))"
    if "path_exists fs p" "lower (path_suffix fs p) \<in> audio_SUPPORTED_FORMATS"
      "get_audio_analyzer ga self = Inr (a', self')" for a' self'
    using that by (simp add: DeepfakeAnalyzer_analyze_def Let_def split: prod.splits)
  have nv: "lower (path_suffix fs p) \<notin> audio_SUPPORTED_FORMATS"
    if "lower (path_suffix fs p) \<in> video_SUPPORTED_FORMATS"
    using that formats_disjoint by blast
  have na: "lower (path_suffix fs p) \<notin> video_SUPPORTED_FORMATS"
    if "lower (path_suffix fs p) \<in> audio_SUPPORTED_FORMATS"
    using that formats_disjoint by blast
  show ?thesis
    using au vi dv da nv na by blast
qed

lemma example_get_video_analyzer:
  "get_video_analyzer example_video_module (DeepfakeAnalyzer_init False) =
     Inr (\<lparr>verbose = False, sample_frames = 30\<rparr>,
          (DeepfakeAnalyzer_init False)
            \<lparr>video_analyzer := Some \<lparr>verbose = False, sample_frames = 30\<rparr>\<rparr>)"
  by (simp add: get_video_analyzer_def DeepfakeAnalyzer_init_def VideoAnalyzer_init_def
        example_video_module_def)

theorem modality_analyzers_revalidate_extension_witness:
  "path_exists example_pathlib ''clip.MP4''
   \<and> lower (path_suffix example_pathlib ''clip.MP4'') \<in> video_SUPPORTED_FORMATS
   \<and> AudioAnalyzer_analyze example_pathlib example_audio_module \<lparr>verbose = False\<rparr> ''clip.MP4''
      = (Inl ValueError, [])
   \<and> DeepfakeAnalyzer_analyze example_pathlib example_numpy example_audio_module
        example_video_module (DeepfakeAnalyzer_init False) ''clip.MP4''
      = (fst (VideoAnalyzer_analyze example_pathlib example_numpy example_video_module
                \<lparr>verbose = False, sample_frames = 30\<rparr> ''clip.MP4''),
         (DeepfakeAnalyzer_init False)
           \<lparr>video_analyzer := Some \<lparr>verbose = False, sample_frames = 30\<rparr>\<rparr>,
         [OpenVideo ''clip.MP4'', ReleaseVideo])"
proof -
  have e: "path_exists example_pathlib ''clip.MP4''"
    by (simp add: example_pathlib_def)
  have v: "lower (path_suffix example_pathlib ''clip.MP4'') \<in> video_SUPPORTED_FORMATS"
    by (simp add: example_pathlib_def lower_MP4 video_SUPPORTED_FORMATS_def)
  have ev: "snd (VideoAnalyzer_analyze example_pathlib example_numpy example_video_module
                \<lparr>verbose = False, sample_frames = 30\<rparr> ''clip.MP4'')
            = [OpenVideo ''clip.MP4'', ReleaseVideo]"
    by (simp add: example_video_analysis)
  show ?thesis
    using e v ev example_get_video_analyzer
      modality_analyzers_revalidate_extension
        [of example_pathlib "''clip.MP4''" example_audio_module "\<lparr>verbose = False\<rparr>"
            example_numpy example_video_module "\<lparr>verbose = False, sample_frames = 30\<rparr>"
            "DeepfakeAnalyzer_init False"]
    by simp
qed


section \<open>Missing dependencies\<close>

text \<open>
  The audio module.  When \<open>librosa\<close> or \<open>scipy\<close> is not installed the constructor of
  \<open>AudioAnalyzer\<close> raises \<open>ImportError\<close>; when the constructor succeeded, no \<open>analyze\<close>
  call raises \<open>ImportError\<close> or \<open>NameError\<close>.
\<close>

lemma audio_constructor_reports_missing_libraries:
  "((l = None \<or> s = None) \<longrightarrow>
      AudioAnalyzer_init (audio_module_import l s) vb = Inl ImportError)
   \<and> (AudioAnalyzer_init (audio_module_import l s) vb = Inr a \<longrightarrow>
        fst (AudioAnalyzer_analyze fs (audio_module_import l s) a p)
          \<notin> {Inl ImportError, Inl NameError})"
proof (intro conjI impI)
  assume "l = None \<or> s = None"
  then show "AudioAnalyzer_init (audio_module_import l s) vb = Inl ImportError"
    by (auto simp: AudioAnalyzer_init_def audio_module_import_def split: option.splits)
next
  assume "AudioAnalyzer_init (audio_module_import l s) vb = Inr a"
  then obtain lib st where ls: "l = Some lib" "s = Some st"
    by (auto simp: AudioAnalyzer_init_def audio_module_import_def
          split: option.splits if_splits)
  have stat: "analyze_statistical_features (Some st) y \<noteq> Inl NameError
            \<and> analyze_statistical_features (Some st) y \<noteq> Inl ImportError" for y
    by (auto simp: analyze_statistical_features_def Let_def split: option.splits)
  show "fst (AudioAnalyzer_analyze fs (audio_module_import l s) a p)
          \<notin> {Inl ImportError, Inl NameError}"
    using stat
    by (auto simp: ls AudioAnalyzer_analyze_def audio_module_import_def Let_def
          split: option.splits sum.splits if_splits)
qed

text \<open>
  The video module.  Whenever the module exists, \<open>cv2\<close> was imported, the flag is true
  and the constructor returns an analyzer: its \<open>raise ImportError\<close> is never reached.
\<close>

lemma video_constructor_guard_unreachable:
  assumes "video_module_import c = Inr g"
  shows "VideoAnalyzer_init g vb n = Inr \<lparr>verbose = vb, sample_frames = n\<rparr>"
  using assms
  by (auto simp: video_module_import_def video_guarded_import_def VideoAnalyzer_init_def
        Let_def split: option.splits)

lemma example_video_module_imported:
  "video_module_import (Some example_cv2) = Inr example_video_module"
  by (simp add: video_module_import_def video_guarded_import_def example_video_module_def)

lemma example_package_imported:
  "package_import (Some example_librosa) (Some example_scipy_stats) (Some example_cv2)
     = Inr (example_audio_module, example_video_module)"
  by (simp add: package_import_def example_video_module_imported example_audio_module_def)

text \<open>
  C8.  The claim is that, with the libraries of a modality unavailable, constructing that
  modality's analyzer raises a missing-dependency error.  For the video modality the
  source does not get that far: with \<open>cv2\<close> not installed the guarded import leaves the
  name \<open>cv2\<close> unbound, and the class statement of \<open>VideoAnalyzer\<close> evaluates the
  annotation \<open>cv2.VideoCapture\<close> of \<open>_sample_frames\<close>.  Importing the video module
  raises \<open>NameError\<close>, and so does importing the package, whose \<open>__init__\<close> imports the
  video module: there is no class to construct, and no \<open>ImportError\<close>.
\<close>

theorem video_module_raises_NameError_without_cv2:
  "video_module_import (None :: ('cap, 'img) cv2_lib option) = Inl NameError
   \<and> package_import l s (None :: ('cap, 'img) cv2_lib option) = Inl NameError"
  by (simp add: video_module_import_def video_guarded_import_def package_import_def)

lemma example_audio_analysis:
  "AudioAnalyzer_analyze example_pathlib example_audio_module \<lparr>verbose = False\<rparr> ''voice.wav''
     = (Inl AttributeError, [LoadAudio ''voice.wav''])"
  by (simp add: AudioAnalyzer_analyze_def example_audio_module_def audio_module_import_def
        example_pathlib_def AudioAnalyzer_supports_file_def lower_wav
        audio_SUPPORTED_FORMATS_def example_librosa_def example_scipy_stats_def
        analyze_statistical_features_def scipy_stats_def Let_def)


section \<open>Merging the groups\<close>

lemma audio_assemble_fields:
  "anomalies_detected (audio_assemble ps s t st) =
     dict_update (dict_update (dict_update [] s) t) st"
  "analysis_details (audio_assemble ps s t st) =
     [(''spectral'', s), (''temporal'', t), (''statistical'', st)]"
  "file_type (audio_assemble ps s t st) = ''audio''"
  by (simp_all add: audio_assemble_def Let_def)

lemma video_assemble_fields:
  "anomalies_detected (video_assemble ps q t c e) =
     dict_update (dict_update (dict_update (dict_update [] q) t) c) e"
  "analysis_details (video_assemble ps q t c e) =
     [(''quality'', q), (''temporal'', t), (''color'', c), (''edges'', e)]"
  "file_type (video_assemble ps q t c e) = ''video''"
  by (simp_all add: video_assemble_def Let_def)

lemma audio_merged_keys:
  "set (dict_keys (anomalies_detected (audio_assemble ps s t st))) =
     set (dict_keys s) \<union> set (dict_keys t) \<union> set (dict_keys st)"
  by (simp add: audio_assemble_fields keys_dict_update dict_keys_def [of "[]"])

lemma video_merged_keys:
  "set (dict_keys (anomalies_detected (video_assemble ps q t c e))) =
     set (dict_keys q) \<union> set (dict_keys t) \<union> set (dict_keys c) \<union> set (dict_keys e)"
  by (simp add: video_assemble_fields keys_dict_update dict_keys_def [of "[]"])

lemma audio_merged_map:
  assumes "distinct (dict_keys s)" "distinct (dict_keys t)" "distinct (dict_keys st)"
  shows "map_of (anomalies_detected (audio_assemble ps s t st)) =
           map_of s ++ map_of t ++ map_of st"
  using assms by (simp add: audio_assemble_fields map_of_dict_update)

lemma video_merged_map:
  assumes "distinct (dict_keys q)" "distinct (dict_keys t)" "distinct (dict_keys c)"
    "distinct (dict_keys e)"
  shows "map_of (anomalies_detected (video_assemble ps q t c e)) =
           map_of q ++ map_of t ++ map_of c ++ map_of e"
  using assms by (simp add: video_assemble_fields map_of_dict_update)

lemma audio_merged_distinct:
  "distinct (dict_keys (anomalies_detected (audio_assemble ps s t st)))"
  by (simp add: audio_assemble_fields distinct_dict_update dict_keys_def [of "[]"])

lemma video_merged_distinct:
  "distinct (dict_keys (anomalies_detected (video_assemble ps q t c e)))"
  by (simp add: video_assemble_fields distinct_dict_update dict_keys_def [of "[]"])

lemma audio_groups_disjoint:
  assumes "analyze_statistical_features m y = Inr st"
  shows "set (dict_keys (analyze_spectral_features lib y sr))
           \<inter> set (dict_keys (analyze_temporal_features lib y sr)) = {}"
    and "set (dict_keys (analyze_spectral_features lib y sr)) \<inter> set (dict_keys st) = {}"
    and "set (dict_keys (analyze_temporal_features lib y sr)) \<inter> set (dict_keys st) = {}"
  using spectral_keys [of lib y sr] temporal_keys [of lib y sr] statistical_keys [OF assms]
  by auto

lemma video_groups_disjoint:
  shows "set (dict_keys (analyze_frame_quality np cv frames))
           \<inter> set (dict_keys (analyze_temporal_consistency np cv frames)) = {}"
    and "set (dict_keys (analyze_frame_quality np cv frames))
           \<inter> set (dict_keys (analyze_color_distribution np frames)) = {}"
    and "set (dict_keys (analyze_frame_quality np cv frames))
           \<inter> set (dict_keys (analyze_edges np cv frames)) = {}"
    and "set (dict_keys (analyze_temporal_consistency np cv frames))
           \<inter> set (dict_keys (analyze_color_distribution np frames)) = {}"
    and "set (dict_keys (analyze_temporal_consistency np cv frames))
           \<inter> set (dict_keys (analyze_edges np cv frames)) = {}"
    and "set (dict_keys (analyze_color_distribution np frames))
           \<inter> set (dict_keys (analyze_edges np cv frames)) = {}"
  using quality_keys [of np cv frames] consistency_keys [of np cv frames]
    color_keys [of np frames] edges_keys [of np cv frames]
  by auto

lemma map_add_disjoint3:
  assumes "dom m1 \<inter> dom m2 = {}" "dom m1 \<inter> dom m3 = {}" "dom m2 \<inter> dom m3 = {}"
  shows "\<forall>k \<in> dom m1. (m1 ++ m2 ++ m3) k = m1 k"
    and "\<forall>k \<in> dom m2. (m1 ++ m2 ++ m3) k = m2 k"
    and "\<forall>k \<in> dom m3. (m1 ++ m2 ++ m3) k = m3 k"
  using assms by (auto simp: map_add_def domIff split: option.splits)

lemma map_add_disjoint4:
  assumes "dom m1 \<inter> dom m2 = {}" "dom m1 \<inter> dom m3 = {}" "dom m1 \<inter> dom m4 = {}"
    "dom m2 \<inter> dom m3 = {}" "dom m2 \<inter> dom m4 = {}" "dom m3 \<inter> dom m4 = {}"
  shows "\<forall>k \<in> dom m1. (m1 ++ m2 ++ m3 ++ m4) k = m1 k"
    and "\<forall>k \<in> dom m2. (m1 ++ m2 ++ m3 ++ m4) k = m2 k"
    and "\<forall>k \<in> dom m3. (m1 ++ m2 ++ m3 ++ m4) k = m3 k"
    and "\<forall>k \<in> dom m4. (m1 ++ m2 ++ m3 ++ m4) k = m4 k"
  using assms by (auto simp: map_add_def domIff split: option.splits)

lemma audio_entries_kept:
  assumes "analyze_statistical_features m y = Inr st"
    and s_def: "s = analyze_spectral_features lib y sr"
    and t_def: "t = analyze_temporal_features lib y sr"
  shows "\<forall>k \<in> set (dict_keys s). map_of (anomalies_detected (audio_assemble ps s t st)) k = map_of s k"
    and "\<forall>k \<in> set (dict_keys t). map_of (anomalies_detected (audio_assemble ps s t st)) k = map_of t k"
    and "\<forall>k \<in> set (dict_keys st). map_of (anomalies_detected (audio_assemble ps s t st)) k = map_of st k"
proof -
  have d: "distinct (dict_keys s)" "distinct (dict_keys t)" "distinct (dict_keys st)"
    using spectral_distinct temporal_distinct statistical_keys [OF assms(1)]
    by (simp_all add: s_def t_def)
  note dj = audio_groups_disjoint [OF assms(1), of lib sr, folded s_def t_def, unfolded keys_dom]
  note kept = map_add_disjoint3 [OF dj]
  show "\<forall>k \<in> set (dict_keys s). map_of (anomalies_detected (audio_assemble ps s t st)) k = map_of s k"
    and "\<forall>k \<in> set (dict_keys t). map_of (anomalies_detected (audio_assemble ps s t st)) k = map_of t k"
    and "\<forall>k \<in> set (dict_keys st). map_of (anomalies_detected (audio_assemble ps s t st)) k = map_of st k"
    unfolding audio_merged_map [OF d] keys_dom using kept by blast+
qed

lemma video_entries_kept:
  assumes q_def: "q = analyze_frame_quality np cv frames"
    and t_def: "t = analyze_temporal_consistency np cv frames"
    and c_def: "c = analyze_color_distribution np frames"
    and e_def: "e = analyze_edges np cv frames"
  shows "\<forall>k \<in> set (dict_keys q). map_of (anomalies_detected (video_assemble ps q t c e)) k = map_of q k"
    and "\<forall>k \<in> set (dict_keys t). map_of (anomalies_detected (video_assemble ps q t c e)) k = map_of t k"
    and "\<forall>k \<in> set (dict_keys c). map_of (anomalies_detected (video_assemble ps q t c e)) k = map_of c k"
    and "\<forall>k \<in> set (dict_keys e). map_of (anomalies_detected (video_assemble ps q t c e)) k = map_of e k"
proof -
  have d: "distinct (dict_keys q)" "distinct (dict_keys t)" "distinct (dict_keys c)"
    "distinct (dict_keys e)"
    using quality_distinct consistency_distinct color_distinct edges_distinct
    by (simp_all add: q_def t_def c_def e_def)
  note dj = video_groups_disjoint [where np = np and cv = cv and frames = frames, folded q_def t_def c_def e_def,
      unfolded keys_dom]
  note kept = map_add_disjoint4 [OF dj]
  show "\<forall>k \<in> set (dict_keys q). map_of (anomalies_detected (video_assemble ps q t c e)) k = map_of q k"
    and "\<forall>k \<in> set (dict_keys t). map_of (anomalies_detected (video_assemble ps q t c e)) k = map_of t k"
    and "\<forall>k \<in> set (dict_keys c). map_of (anomalies_detected (video_assemble ps q t c e)) k = map_of c k"
    and "\<forall>k \<in> set (dict_keys e). map_of (anomalies_detected (video_assemble ps q t c e)) k = map_of e k"
    unfolding video_merged_map [OF d] keys_dom using kept by blast+
qed

section \<open>The merge of the groups' anomaly sets\<close>

lemma example_statistical:
  "analyze_statistical_features (Some stats_with_skewness) [Fl 0, Fl 1] =
     Inr [(''kurtosis_anomaly'',
           [(''detected'', PBool True), (''value'', PFloat (Fl 0.5)),
            (''reason'', PStr ''Abnormal distribution kurtosis'')]),
          (''skewness_anomaly'',
           [(''detected'', PBool True), (''value'', PFloat (Fl 3)),
            (''reason'', PStr ''Unusual distribution skewness'')])]"
  by (simp add: analyze_statistical_features_def stats_with_skewness_def Let_def)


lemma example_temporal:
  "analyze_temporal_features example_librosa [Fl 0, Fl 1] 8000 =
     [(''energy_anomaly'',
       [(''detected'', PBool True), (''mean'', PFloat (Fl 1)), (''std'', PFloat (Fl 0)),
        (''reason'', PStr ''Unnaturally consistent energy levels'')])]"
  by (simp add: analyze_temporal_features_def example_librosa_def Let_def
        np_mean_const2 np_std_const2)




section \<open>Attribution of anomalies to extractor groups\<close>

lemma unique_group3:
  assumes "K1 \<inter> K2 = {}" "K1 \<inter> K3 = {}" "K2 \<inter> K3 = {}"
    and "n1 \<noteq> n2" "n1 \<noteq> n3" "n2 \<noteq> n3"
    and "k \<in> K1 \<union> K2 \<union> K3"
  shows "\<exists>!name. (name = n1 \<and> k \<in> K1) \<or> (name = n2 \<and> k \<in> K2) \<or> (name = n3 \<and> k \<in> K3)"
  using assms by auto

lemma unique_group4:
  assumes "K1 \<inter> K2 = {}" "K1 \<inter> K3 = {}" "K1 \<inter> K4 = {}"
    and "K2 \<inter> K3 = {}" "K2 \<inter> K4 = {}" "K3 \<inter> K4 = {}"
    and "n1 \<noteq> n2" "n1 \<noteq> n3" "n1 \<noteq> n4" "n2 \<noteq> n3" "n2 \<noteq> n4" "n3 \<noteq> n4"
    and "k \<in> K1 \<union> K2 \<union> K3 \<union> K4"
  shows "\<exists>!name. (name = n1 \<and> k \<in> K1) \<or> (name = n2 \<and> k \<in> K2)
                \<or> (name = n3 \<and> k \<in> K3) \<or> (name = n4 \<and> k \<in> K4)"
  using assms by auto

lemma audio_result_attribution:
  assumes st: "analyze_statistical_features m y = Inr st"
    and r: "r = audio_assemble ps (analyze_spectral_features lib y sr)
                  (analyze_temporal_features lib y sr) st"
  shows "dict_keys (analysis_details r) = [''spectral'', ''temporal'', ''statistical'']"
    and "set (dict_keys (anomalies_detected r)) =
           (\<Union>grp \<in> snd ` set (analysis_details r). set (dict_keys grp))"
    and "\<forall>k \<in> set (dict_keys (anomalies_detected r)).
           \<exists>!name. \<exists>grp. map_of (analysis_details r) name = Some grp
                          \<and> k \<in> set (dict_keys grp)"
    and "\<forall>name grp k. map_of (analysis_details r) name = Some grp
                        \<and> k \<in> set (dict_keys grp)
           \<longrightarrow> map_of (anomalies_detected r) k = map_of grp k"
proof -
  let ?s = "analyze_spectral_features lib y sr"
  let ?t = "analyze_temporal_features lib y sr"
  have det: "analysis_details r = [(''spectral'', ?s), (''temporal'', ?t), (''statistical'', st)]"
    by (simp add: r audio_assemble_fields)
  have keys: "set (dict_keys (anomalies_detected r)) =
                set (dict_keys ?s) \<union> set (dict_keys ?t) \<union> set (dict_keys st)"
    by (simp add: r audio_merged_keys)
  note dj = audio_groups_disjoint [OF st, where lib = lib and sr = sr]
  note kept = audio_entries_kept [OF st refl refl, where lib = lib and sr = sr and ps = ps,
      folded r]
  show "dict_keys (analysis_details r) = [''spectral'', ''temporal'', ''statistical'']"
    by (simp add: det dict_keys_def)
  show "set (dict_keys (anomalies_detected r)) =
           (\<Union>grp \<in> snd ` set (analysis_details r). set (dict_keys grp))"
    by (simp add: det keys Un_assoc)
  have grp: "(map_of (analysis_details r) name = Some g) \<longleftrightarrow>
               (name = ''spectral'' \<and> g = ?s) \<or> (name = ''temporal'' \<and> g = ?t)
             \<or> (name = ''statistical'' \<and> g = st)" for name g
    by (auto simp: det)
  have ex: "(\<exists>grp. map_of (analysis_details r) name = Some grp \<and> k \<in> set (dict_keys grp))
              \<longleftrightarrow> (name = ''spectral'' \<and> k \<in> set (dict_keys ?s))
                \<or> (name = ''temporal'' \<and> k \<in> set (dict_keys ?t))
                \<or> (name = ''statistical'' \<and> k \<in> set (dict_keys st))" for name k
    unfolding grp by blast
  show "\<forall>k \<in> set (dict_keys (anomalies_detected r)).
           \<exists>!name. \<exists>grp. map_of (analysis_details r) name = Some grp
                          \<and> k \<in> set (dict_keys grp)"
    unfolding ex keys
  proof
    fix k
    assume "k \<in> set (dict_keys ?s) \<union> set (dict_keys ?t) \<union> set (dict_keys st)"
    then show "\<exists>!name. (name = ''spectral'' \<and> k \<in> set (dict_keys ?s))
                \<or> (name = ''temporal'' \<and> k \<in> set (dict_keys ?t))
                \<or> (name = ''statistical'' \<and> k \<in> set (dict_keys st))"
      by (intro unique_group3 dj) simp_all
  qed
  show "\<forall>name grp k. map_of (analysis_details r) name = Some grp
                        \<and> k \<in> set (dict_keys grp)
           \<longrightarrow> map_of (anomalies_detected r) k = map_of grp k"
    unfolding grp using kept by blast
qed

lemma video_result_attribution:
  assumes r: "r = video_assemble ps (analyze_frame_quality np cv frames)
                  (analyze_temporal_consistency np cv frames)
                  (analyze_color_distribution np frames) (analyze_edges np cv frames)"
  shows "dict_keys (analysis_details r) = [''quality'', ''temporal'', ''color'', ''edges'']"
    and "set (dict_keys (anomalies_detected r)) =
           (\<Union>grp \<in> snd ` set (analysis_details r). set (dict_keys grp))"
    and "\<forall>k \<in> set (dict_keys (anomalies_detected r)).
           \<exists>!name. \<exists>grp. map_of (analysis_details r) name = Some grp
                          \<and> k \<in> set (dict_keys grp)"
    and "\<forall>name grp k. map_of (analysis_details r) name = Some grp
                        \<and> k \<in> set (dict_keys grp)
           \<longrightarrow> map_of (anomalies_detected r) k = map_of grp k"
proof -
  let ?q = "analyze_frame_quality np cv frames"
  let ?t = "analyze_temporal_consistency np cv frames"
  let ?c = "analyze_color_distribution np frames"
  let ?e = "analyze_edges np cv frames"
  have det: "analysis_details r =
               [(''quality'', ?q), (''temporal'', ?t), (''color'', ?c), (''edges'', ?e)]"
    by (simp add: r video_assemble_fields)
  have keys: "set (dict_keys (anomalies_detected r)) =
                set (dict_keys ?q) \<union> set (dict_keys ?t) \<union> set (dict_keys ?c)
                \<union> set (dict_keys ?e)"
    by (simp add: r video_merged_keys)
  note dj = video_groups_disjoint [where np = np and cv = cv and frames = frames]
  note kept = video_entries_kept [OF refl refl refl refl,
      where np = np and cv = cv and frames = frames and ps = ps, folded r]
  show "dict_keys (analysis_details r) = [''quality'', ''temporal'', ''color'', ''edges'']"
    by (simp add: det dict_keys_def)
  show "set (dict_keys (anomalies_detected r)) =
           (\<Union>grp \<in> snd ` set (analysis_details r). set (dict_keys grp))"
    by (simp add: det keys Un_assoc)
  have grp: "(map_of (analysis_details r) name = Some g) \<longleftrightarrow>
               (name = ''quality'' \<and> g = ?q) \<or> (name = ''temporal'' \<and> g = ?t)
             \<or> (name = ''color'' \<and> g = ?c) \<or> (name = ''edges'' \<and> g = ?e)" for name g
    by (auto simp: det)
  have ex: "(\<exists>grp. map_of (analysis_details r) name = Some grp \<and> k \<in> set (dict_keys grp))
              \<longleftrightarrow> (name = ''quality'' \<and> k \<in> set (dict_keys ?q))
                \<or> (name = ''temporal'' \<and> k \<in> set (dict_keys ?t))
                \<or> (name = ''color'' \<and> k \<in> set (dict_keys ?c))
                \<or> (name = ''edges'' \<and> k \<in> set (dict_keys ?e))" for name k
    unfolding grp by blast
  show "\<forall>k \<in> set (dict_keys (anomalies_detected r)).
           \<exists>!name. \<exists>grp. map_of (analysis_details r) name = Some grp
                          \<and> k \<in> set (dict_keys grp)"
    unfolding ex keys
  proof
    fix k
    assume "k \<in> set (dict_keys ?q) \<union> set (dict_keys ?t) \<union> set (dict_keys ?c)
                \<union> set (dict_keys ?e)"
    then show "\<exists>!name. (name = ''quality'' \<and> k \<in> set (dict_keys ?q))
                \<or> (name = ''temporal'' \<and> k \<in> set (dict_keys ?t))
                \<or> (name = ''color'' \<and> k \<in> set (dict_keys ?c))
                \<or> (name = ''edges'' \<and> k \<in> set (dict_keys ?e))"
      by (intro unique_group4 dj) simp_all
  qed
  show "\<forall>name grp k. map_of (analysis_details r) name = Some grp
                        \<and> k \<in> set (dict_keys grp)
           \<longrightarrow> map_of (anomalies_detected r) k = map_of grp k"
    unfolding grp using kept by blast
qed

text \<open>
  C9.  In every result returned by an audio or a video \<open>analyze\<close> call,
  \<open>analysis_details\<close> has the modality's group names as keys (spectral, temporal,
  statistical for audio; quality, temporal, color, edges for video) and the groups'
  anomaly sets as values; the keys of \<open>anomalies_detected\<close> are the union of the keys
  of those values; every anomaly of \<open>anomalies_detected\<close> is in exactly one group; and
  every entry of a group is the entry \<open>anomalies_detected\<close> has under that key.
\<close>

theorem anomalies_attributable_to_groups:
  assumes "fst (AudioAnalyzer_analyze fs g a p) = Inr r
         \<or> fst (VideoAnalyzer_analyze fs np gv v p) = Inr r"
  shows "dict_keys (analysis_details r) =
           (if file_type r = ''audio'' then [''spectral'', ''temporal'', ''statistical'']
            else [''quality'', ''temporal'', ''color'', ''edges''])
       \<and> set (dict_keys (anomalies_detected r)) =
           (\<Union>grp \<in> snd ` set (analysis_details r). set (dict_keys grp))
       \<and> (\<forall>k \<in> set (dict_keys (anomalies_detected r)).
            \<exists>!name. \<exists>grp. map_of (analysis_details r) name = Some grp
                           \<and> k \<in> set (dict_keys grp))
       \<and> (\<forall>name grp k. map_of (analysis_details r) name = Some grp
                         \<and> k \<in> set (dict_keys grp)
            \<longrightarrow> map_of (anomalies_detected r) k = map_of grp k)"
  using assms
proof
  assume "fst (AudioAnalyzer_analyze fs g a p) = Inr r"
  then obtain lib y sr st where
    st: "analyze_statistical_features (scipy_stats_global g) y = Inr st"
    and r: "r = audio_assemble (path_str fs p) (analyze_spectral_features lib y sr)
                  (analyze_temporal_features lib y sr) st"
    using audio_analyze_Inr by blast
  have "file_type r = ''audio''"
    by (simp add: r audio_assemble_fields)
  then show ?thesis
    using audio_result_attribution [OF st r] by simp
next
  assume run: "fst (VideoAnalyzer_analyze fs np gv v p) = Inr r"
  from video_analyze_Inr [OF run] obtain cv frames where
    cv: "cv2 gv = Some cv" and
    r: "r = video_assemble (path_str fs p) (analyze_frame_quality np cv frames)
              (analyze_temporal_consistency np cv frames)
              (analyze_color_distribution np frames) (analyze_edges np cv frames)"
    by blast
  have "file_type r \<noteq> ''audio''"
    by (simp add: r video_assemble_fields)
  then show ?thesis
    using video_result_attribution [OF r] by simp
qed

lemma example_audio_run:
  "AudioAnalyzer_analyze example_pathlib
     (audio_module_import (Some example_librosa) (Some stats_with_skewness))
     \<lparr>verbose = False\<rparr> ''voice.wav''
   = (Inr (audio_assemble ''voice.wav''
             (analyze_spectral_features example_librosa [Fl 0, Fl 1] 8000)
             (analyze_temporal_features example_librosa [Fl 0, Fl 1] 8000)
             [(''kurtosis_anomaly'',
               [(''detected'', PBool True), (''value'', PFloat (Fl 0.5)),
                (''reason'', PStr ''Abnormal distribution kurtosis'')]),
              (''skewness_anomaly'',
               [(''detected'', PBool True), (''value'', PFloat (Fl 3)),
                (''reason'', PStr ''Unusual distribution skewness'')])]),
      [LoadAudio ''voice.wav''])"
proof -
  have ok: "path_exists example_pathlib ''voice.wav''"
    "AudioAnalyzer_supports_file example_pathlib ''voice.wav''"
    "path_str example_pathlib ''voice.wav'' = ''voice.wav''"
    "load example_librosa ''voice.wav'' = Some ([Fl 0, Fl 1], 8000)"
    by (simp_all add: example_pathlib_def AudioAnalyzer_supports_file_def lower_wav
          audio_SUPPORTED_FORMATS_def example_librosa_def)
  show ?thesis
    unfolding AudioAnalyzer_analyze_def
    by (simp add: ok audio_module_import_def example_statistical Let_def)
qed

theorem anomalies_attributable_to_groups_witness:
  "fst (VideoAnalyzer_analyze example_pathlib example_numpy example_video_module
          \<lparr>verbose = False, sample_frames = 30\<rparr> ''clip.MP4'')
     = Inr (video_assemble ''clip.MP4''
              (analyze_frame_quality example_numpy example_cv2 [0, 10, 20])
              (analyze_temporal_consistency example_numpy example_cv2 [0, 10, 20])
              (analyze_color_distribution example_numpy [0, 10, 20])
              (analyze_edges example_numpy example_cv2 [0, 10, 20]))
   \<and> dict_keys (analysis_details
        (video_assemble ''clip.MP4''
           (analyze_frame_quality example_numpy example_cv2 [0, 10, 20])
           (analyze_temporal_consistency example_numpy example_cv2 [0, 10, 20])
           (analyze_color_distribution example_numpy [0, 10, 20])
           (analyze_edges example_numpy example_cv2 [0, 10, 20])))
     = [''quality'', ''temporal'', ''color'', ''edges'']
   \<and> dict_keys (anomalies_detected
        (video_assemble ''clip.MP4''
           (analyze_frame_quality example_numpy example_cv2 [0, 10, 20])
           (analyze_temporal_consistency example_numpy example_cv2 [0, 10, 20])
           (analyze_color_distribution example_numpy [0, 10, 20])
           (analyze_edges example_numpy example_cv2 [0, 10, 20])))
     = [''sharpness_anomaly'', ''temporal_consistency_anomaly'',
        ''color_distribution_anomaly'', ''edge_consistency_anomaly'',
        ''low_edge_density_anomaly'']
   \<and> (\<exists>r. fst (AudioAnalyzer_analyze example_pathlib
                  (audio_module_import (Some example_librosa) (Some stats_with_skewness))
                  \<lparr>verbose = False\<rparr> ''voice.wav'') = Inr r
          \<and> dict_keys (analysis_details r) = [''spectral'', ''temporal'', ''statistical''])"
proof -
  let ?r = "video_assemble ''clip.MP4''
              (analyze_frame_quality example_numpy example_cv2 [0, 10, 20])
              (analyze_temporal_consistency example_numpy example_cv2 [0, 10, 20])
              (analyze_color_distribution example_numpy [0, 10, 20])
              (analyze_edges example_numpy example_cv2 [0, 10, 20])"
  have run: "fst (VideoAnalyzer_analyze example_pathlib example_numpy example_video_module
          \<lparr>verbose = False, sample_frames = 30\<rparr> ''clip.MP4'') = Inr ?r"
    by (simp add: example_video_analysis)
  have ft: "file_type ?r = ''video''"
    by (simp add: video_assemble_fields)
  have dk: "dict_keys (analysis_details ?r) = [''quality'', ''temporal'', ''color'', ''edges'']"
    using anomalies_attributable_to_groups [where r = ?r, OF disjI2, OF run] ft by simp
  have ak: "dict_keys (anomalies_detected ?r)
     = [''sharpness_anomaly'', ''temporal_consistency_anomaly'',
        ''color_distribution_anomaly'', ''edge_consistency_anomaly'',
        ''low_edge_density_anomaly'']"
    unfolding example_video_result
    by (simp add: example_quality example_consistency example_color example_edges
          dict_keys_def)
  obtain ra where ra: "fst (AudioAnalyzer_analyze example_pathlib
                  (audio_module_import (Some example_librosa) (Some stats_with_skewness))
                  \<lparr>verbose = False\<rparr> ''voice.wav'') = Inr ra"
    and fa: "file_type ra = ''audio''"
    by (simp add: example_audio_run audio_assemble_fields)
  have "dict_keys (analysis_details ra) = [''spectral'', ''temporal'', ''statistical'']"
    using anomalies_attributable_to_groups [where r = ra, OF disjI1, OF ra] fa by simp
  with ra run dk ak show ?thesis by blast
qed

end
